theory Spec2Isabelle
  imports Complex_Main
begin

section \<open>Flange cost calculator: the model of app.py\<close>

text \<open>
  The embedding follows \<^verbatim>\<open>src/app.py\<close>. Python values that come out of the JSON
  catalog are values of the datatype \<open>json\<close> (Python's \<open>None\<close> is \<open>JNull\<close>), Python
  exceptions are values of \<open>py_error\<close> on the left of a sum, and the session state that
  the callbacks mutate is a record that is passed in and returned.

  Numbers: a Python \<open>float\<close> is modelled by its exact real value; rounding to the
  nearest double and overflow are not modelled. The values that \<^verbatim>\<open>float(s)\<close> returns
  for a string are of the type \<open>pyfloat\<close>, which adds the infinities and NaN, since
  the comparisons and the division of the two estimators treat them differently.
  Characters are modelled as ASCII.
\<close>

subsection \<open>Python values and exceptions\<close>

datatype py_error = ValueError | IndexError | TypeError | KeyError | ZeroDivisionError

datatype json =
    JNull
  | JBool bool
  | JInt int
  | JFloat real
  | JStr string
  | JList "json list"
  | JDict "(string \<times> json) list"

text \<open>\<^verbatim>\<open>isinstance(v, dict)\<close> and \<^verbatim>\<open>k in v\<close> for a dictionary, whose items are kept in
  insertion order as an association list.\<close>

fun is_dict :: "json \<Rightarrow> bool" where
  "is_dict (JDict _) = True"
| "is_dict _ = False"

fun dict_items :: "json \<Rightarrow> (string \<times> json) list" where
  "dict_items (JDict kvs) = kvs"
| "dict_items _ = []"

definition has_key :: "string \<Rightarrow> json \<Rightarrow> bool" where
  "has_key k v = (map_of (dict_items v) k \<noteq> None)"

text \<open>\<^verbatim>\<open>isinstance(v, (int, float))\<close>: Python's \<open>bool\<close> is a subclass of \<open>int\<close>.\<close>

fun is_int_or_float :: "json \<Rightarrow> bool" where
  "is_int_or_float (JInt _) = True"
| "is_int_or_float (JFloat _) = True"
| "is_int_or_float (JBool _) = True"
| "is_int_or_float _ = False"

fun num_value :: "json \<Rightarrow> real" where
  "num_value (JInt i) = of_int i"
| "num_value (JFloat r) = r"
| "num_value (JBool b) = of_bool b"
| "num_value _ = 0"

subsection \<open>Selection state (lines 106-127)\<close>

text \<open>The part of \<^verbatim>\<open>st.session_state\<close> that the selection callback reads and writes:
  the list of selections, one per level, and the values held by the select boxes,
  by widget key.\<close>

record session_state =
  selections :: "string list"
  widget_values :: "(string \<times> string) list"

text \<open>\<^verbatim>\<open>
  def selection_on_change_callback(level_idx, widget_key_for_level):
      st.session_state.selections[level_idx] = st.session_state[widget_key_for_level]
      for k in range(level_idx + 1, len(st.session_state.selections)):
          st.session_state.selections[k] = ""
\<close>
  The right-hand side is read first (a missing widget key raises \<open>KeyError\<close>), then
  the store at \<open>level_idx\<close> (out of range raises \<open>IndexError\<close>). The callback is
  registered with \<open>level_idx\<close> taken from \<^verbatim>\<open>range(len(level_names))\<close>, a natural number.\<close>

definition clear_after :: "nat \<Rightarrow> string list \<Rightarrow> string list" where
  "clear_after level_idx sels =
     fold (\<lambda>k s. s[k := '''']) [Suc level_idx ..< length sels] sels"

definition selection_on_change_callback ::
    "nat \<Rightarrow> string \<Rightarrow> session_state \<Rightarrow> py_error + session_state" where
  "selection_on_change_callback level_idx widget_key_for_level st =
     (case map_of (widget_values st) widget_key_for_level of
        None \<Rightarrow> Inl KeyError
      | Some v \<Rightarrow>
          if level_idx < length (selections st)
          then Inr (st\<lparr>selections := clear_after level_idx ((selections st)[level_idx := v])\<rparr>)
          else Inl IndexError)"

subsection \<open>Strings\<close>

text \<open>\<^verbatim>\<open>str.isspace\<close> on one character, \<^verbatim>\<open>str.strip()\<close> (with its two halves
  \<^verbatim>\<open>lstrip\<close> and \<^verbatim>\<open>rstrip\<close>), \<^verbatim>\<open>str.lower()\<close>,
  \<^verbatim>\<open>str.split(sep)\<close> for a one-character separator and \<^verbatim>\<open>str.replace(old, new)\<close>
  for a non-empty \<open>old\<close>.\<close>

definition is_space :: "char \<Rightarrow> bool" where
  "is_space c = (let n = (of_char c :: nat) in (9 \<le> n \<and> n \<le> 13) \<or> (28 \<le> n \<and> n \<le> 32))"

definition py_lstrip :: "string \<Rightarrow> string" where
  "py_lstrip s = dropWhile is_space s"

definition py_rstrip :: "string \<Rightarrow> string" where
  "py_rstrip s = rev (dropWhile is_space (rev s))"

definition py_strip :: "string \<Rightarrow> string" where
  "py_strip s = py_rstrip (py_lstrip s)"

definition lower_char :: "char \<Rightarrow> char" where
  "lower_char c = (let n = (of_char c :: nat) in if 65 \<le> n \<and> n \<le> 90 then char_of (n + 32) else c)"

definition py_lower :: "string \<Rightarrow> string" where
  "py_lower s = map lower_char s"

fun py_split :: "char \<Rightarrow> string \<Rightarrow> string list" where
  "py_split sep [] = [[]]"
| "py_split sep (c # cs) =
     (if c = sep then [] # py_split sep cs
      else (case py_split sep cs of
              [] \<Rightarrow> [[c]]
            | p # ps \<Rightarrow> (c # p) # ps))"

function py_replace :: "string \<Rightarrow> string \<Rightarrow> string \<Rightarrow> string" where
  "py_replace old new [] = []"
| "py_replace old new (c # cs) =
     (if old \<noteq> [] \<and> take (length old) (c # cs) = old
      then new @ py_replace old new (drop (length old) (c # cs))
      else c # py_replace old new cs)"
  by pat_completeness auto
termination
  by (relation "measure (\<lambda>(old, new, s). length s)") (auto simp: neq_Nil_conv)

subsection \<open>Floats\<close>

text \<open>A Python float: a finite value, an infinity, or NaN. The builtin \<^verbatim>\<open>float(s)\<close> on
  a string is not code of this program: the functions that call it take it as the
  parameter \<open>float\<close>, a function from strings to \<open>pyfloat option\<close> where \<open>None\<close> stands
  for the \<open>ValueError\<close> that \<^verbatim>\<open>float\<close> raises on a string it cannot parse.\<close>

datatype pyfloat = Finite real | PosInf | NegInf | NaN

definition inf_of_sign :: "real \<Rightarrow> pyfloat" where
  "inf_of_sign s = (if s = 0 then NaN else if 0 < s then PosInf else NegInf)"

fun pf_mul :: "pyfloat \<Rightarrow> pyfloat \<Rightarrow> pyfloat" where
  "pf_mul NaN _ = NaN"
| "pf_mul _ NaN = NaN"
| "pf_mul (Finite a) (Finite b) = Finite (a * b)"
| "pf_mul (Finite a) PosInf = inf_of_sign a"
| "pf_mul (Finite a) NegInf = inf_of_sign (- a)"
| "pf_mul PosInf (Finite b) = inf_of_sign b"
| "pf_mul NegInf (Finite b) = inf_of_sign (- b)"
| "pf_mul PosInf PosInf = PosInf"
| "pf_mul PosInf NegInf = NegInf"
| "pf_mul NegInf PosInf = NegInf"
| "pf_mul NegInf NegInf = PosInf"

fun pf_add :: "pyfloat \<Rightarrow> pyfloat \<Rightarrow> pyfloat" where
  "pf_add NaN _ = NaN"
| "pf_add _ NaN = NaN"
| "pf_add (Finite a) (Finite b) = Finite (a + b)"
| "pf_add PosInf NegInf = NaN"
| "pf_add NegInf PosInf = NaN"
| "pf_add PosInf _ = PosInf"
| "pf_add NegInf _ = NegInf"
| "pf_add (Finite a) b = b"

text \<open>Float division: a zero divisor raises \<open>ZeroDivisionError\<close>, whatever the dividend.\<close>

fun pf_div :: "pyfloat \<Rightarrow> pyfloat \<Rightarrow> py_error + pyfloat" where
  "pf_div x (Finite b) =
     (if b = 0 then Inl ZeroDivisionError
      else Inr (case x of
                  Finite a \<Rightarrow> Finite (a / b)
                | PosInf \<Rightarrow> inf_of_sign b
                | NegInf \<Rightarrow> inf_of_sign (- b)
                | NaN \<Rightarrow> NaN))"
| "pf_div (Finite a) PosInf = Inr (Finite 0)"
| "pf_div (Finite a) NegInf = Inr (Finite 0)"
| "pf_div _ _ = Inr NaN"

text \<open>\<^verbatim>\<open>x <= c\<close> for a float \<open>x\<close> and a finite constant \<open>c\<close>: every comparison with NaN
  is false.\<close>

fun pf_le :: "pyfloat \<Rightarrow> real \<Rightarrow> bool" where
  "pf_le (Finite a) c = (a \<le> c)"
| "pf_le NegInf c = True"
| "pf_le PosInf c = False"
| "pf_le NaN c = False"

definition call_float :: "(string \<Rightarrow> pyfloat option) \<Rightarrow> string \<Rightarrow> py_error + pyfloat" where
  "call_float float s = (case float s of None \<Rightarrow> Inl ValueError | Some v \<Rightarrow> Inr v)"

text \<open>A concrete \<open>float\<close> for evaluating examples: the plain decimal numerals
  \<^verbatim>\<open>[+-]digits[.digits]\<close> with surrounding whitespace, which \<^verbatim>\<open>float\<close> accepts with
  the value computed here. Everything else is rejected by this function (Python's
  \<^verbatim>\<open>float\<close> accepts more: exponents, \<^verbatim>\<open>inf\<close>, \<^verbatim>\<open>nan\<close>, digit grouping).\<close>

definition is_digit :: "char \<Rightarrow> bool" where
  "is_digit c = (let n = (of_char c :: nat) in 48 \<le> n \<and> n \<le> 57)"

definition digits_value :: "string \<Rightarrow> nat" where
  "digits_value ds = foldl (\<lambda>acc c. 10 * acc + (of_char c - 48)) 0 ds"

definition unsigned_decimal :: "string \<Rightarrow> real option" where
  "unsigned_decimal u =
     (case py_split CHR ''.'' u of
        [a] \<Rightarrow> if a \<noteq> [] \<and> list_all is_digit a then Some (real (digits_value a)) else None
      | [a, b] \<Rightarrow>
          if (a \<noteq> [] \<or> b \<noteq> []) \<and> list_all is_digit a \<and> list_all is_digit b
          then Some (real (digits_value a) + real (digits_value b) / 10 ^ length b)
          else None
      | _ \<Rightarrow> None)"

definition float_decimal :: "string \<Rightarrow> pyfloat option" where
  "float_decimal s =
     (case py_strip s of
        [] \<Rightarrow> None
      | c # cs \<Rightarrow>
          if c = CHR ''-'' then map_option (\<lambda>r. Finite (- r)) (unsigned_decimal cs)
          else if c = CHR ''+'' then map_option Finite (unsigned_decimal cs)
          else map_option Finite (unsigned_decimal (c # cs)))"

subsection \<open>Billet mass (lines 10-13, 42-51)\<close>

definition REFERENCE_BILLET_WIDTH_MM :: int where
  "REFERENCE_BILLET_WIDTH_MM = 100"

definition REFERENCE_BILLET_HEIGHT_MM :: int where
  "REFERENCE_BILLET_HEIGHT_MM = 100"

definition REFERENCE_BILLET_MASS_KG :: real where
  "REFERENCE_BILLET_MASS_KG = 482.0"

definition GST_RATE :: real where
  "GST_RATE = 0.19"

text \<open>The \<^verbatim>\<open>except (ValueError, IndexError, TypeError)\<close> clause of both estimators.\<close>

definition caught :: "py_error \<Rightarrow> bool" where
  "caught e = (e = ValueError \<or> e = IndexError \<or> e = TypeError)"

text \<open>\<^verbatim>\<open>
  def calculate_billet_weight_from_section(section_str):
      if not section_str or 'x' not in section_str.lower(): return None
      try:
          parts = section_str.lower().split('x')
          if len(parts) != 2: return None
          width_mm, height_mm = float(parts[0]), float(parts[1])
          if REFERENCE_BILLET_WIDTH_MM == 0 or REFERENCE_BILLET_HEIGHT_MM == 0: return None
          return (width_mm * height_mm * REFERENCE_BILLET_MASS_KG) / \
                 (REFERENCE_BILLET_WIDTH_MM * REFERENCE_BILLET_HEIGHT_MM)
      except (ValueError, IndexError, TypeError): return None
\<close>
  for a string argument. \<open>Inr None\<close> is the return value \<open>None\<close>; an exception that the
  \<open>except\<close> clause does not catch is \<open>Inl\<close>.\<close>

definition billet_try_body ::
    "(string \<Rightarrow> pyfloat option) \<Rightarrow> string \<Rightarrow> py_error + pyfloat option" where
  "billet_try_body float section_str =
     (case py_split CHR ''x'' (py_lower section_str) of
        [p0, p1] \<Rightarrow>
          (case call_float float p0 of
             Inl e \<Rightarrow> Inl e
           | Inr width_mm \<Rightarrow>
               (case call_float float p1 of
                  Inl e \<Rightarrow> Inl e
                | Inr height_mm \<Rightarrow>
                    if REFERENCE_BILLET_WIDTH_MM = 0 \<or> REFERENCE_BILLET_HEIGHT_MM = 0
                    then Inr None
                    else (case pf_div
                                 (pf_mul (pf_mul width_mm height_mm) (Finite REFERENCE_BILLET_MASS_KG))
                                 (Finite (of_int (REFERENCE_BILLET_WIDTH_MM * REFERENCE_BILLET_HEIGHT_MM)))
                          of Inl e \<Rightarrow> Inl e
                           | Inr m \<Rightarrow> Inr (Some m))))
      | _ \<Rightarrow> Inr None)"

definition calculate_billet_weight_from_section ::
    "(string \<Rightarrow> pyfloat option) \<Rightarrow> string \<Rightarrow> py_error + pyfloat option" where
  "calculate_billet_weight_from_section float section_str =
     (if section_str = [] \<or> CHR ''x'' \<notin> set (py_lower section_str) then Inr None
      else (case billet_try_body float section_str of
              Inl e \<Rightarrow> if caught e then Inr None else Inl e
            | Inr r \<Rightarrow> Inr r))"

subsection \<open>Cutting waste (lines 53-68)\<close>

text \<open>\<^verbatim>\<open>
  def get_cutting_waste_kg(inch_size_str):
      if not inch_size_str: return 0.2
      numeric_inch_val = 0.0
      try:
          cleaned_inch_str = inch_size_str.replace('_inch', '').strip()
          parts = cleaned_inch_str.split('_')
          if len(parts) == 1: numeric_inch_val = float(parts[0])
          elif len(parts) == 2: numeric_inch_val = float(parts[0]) / float(parts[1])
          elif len(parts) == 3: numeric_inch_val = float(parts[0]) + (float(parts[1]) / float(parts[2]))
          else: numeric_inch_val = float(parts[0]) # Fallback
      except (ValueError, IndexError, TypeError): numeric_inch_val = 0
      if numeric_inch_val <= 0: return 0.2
      if numeric_inch_val <= 4: return 0.2
      elif numeric_inch_val <= 8: return 0.5
      elif numeric_inch_val <= 12: return 1.0
      else: return 1.0
\<close>
  \<open>waste_try_body\<close> is the body of the \<open>try\<close> block: the value assigned to
  \<open>numeric_inch_val\<close>, or the exception raised on the way, operands evaluated left to
  right.\<close>

definition waste_try_body ::
    "(string \<Rightarrow> pyfloat option) \<Rightarrow> string \<Rightarrow> py_error + pyfloat" where
  "waste_try_body float inch_size_str =
     (let cleaned_inch_str = py_strip (py_replace ''_inch'' '''' inch_size_str);
          parts = py_split CHR ''_'' cleaned_inch_str
      in case parts of
           [] \<Rightarrow> Inl IndexError
         | [p0] \<Rightarrow> call_float float p0
         | [p0, p1] \<Rightarrow>
             (case call_float float p0 of
                Inl e \<Rightarrow> Inl e
              | Inr a \<Rightarrow>
                  (case call_float float p1 of
                     Inl e \<Rightarrow> Inl e
                   | Inr b \<Rightarrow> pf_div a b))
         | [p0, p1, p2] \<Rightarrow>
             (case call_float float p0 of
                Inl e \<Rightarrow> Inl e
              | Inr a \<Rightarrow>
                  (case call_float float p1 of
                     Inl e \<Rightarrow> Inl e
                   | Inr b \<Rightarrow>
                       (case call_float float p2 of
                          Inl e \<Rightarrow> Inl e
                        | Inr c \<Rightarrow>
                            (case pf_div b c of
                               Inl e \<Rightarrow> Inl e
                             | Inr q \<Rightarrow> Inr (pf_add a q)))))
         | p0 # _ \<Rightarrow> call_float float p0)"

definition get_cutting_waste_kg ::
    "(string \<Rightarrow> pyfloat option) \<Rightarrow> string \<Rightarrow> py_error + real" where
  "get_cutting_waste_kg float inch_size_str =
     (if inch_size_str = [] then Inr 0.2
      else (case (case waste_try_body float inch_size_str of
                    Inl e \<Rightarrow> if caught e then Inr (Finite 0) else Inl e
                  | Inr v \<Rightarrow> Inr v)
            of Inl e \<Rightarrow> Inl e
             | Inr numeric_inch_val \<Rightarrow>
                 Inr (if pf_le numeric_inch_val 0 then 0.2
                      else if pf_le numeric_inch_val 4 then 0.2
                      else if pf_le numeric_inch_val 8 then 0.5
                      else if pf_le numeric_inch_val 12 then 1.0
                      else 1.0)))"

subsection \<open>Catalog navigation (lines 33-40, 139-153, 181-187)\<close>

text \<open>\<^verbatim>\<open>
  def get_nested_value(data_dict, path_list):
      current_level = data_dict
      for key_part in path_list:
          if isinstance(current_level, dict) and key_part in current_level:
              current_level = current_level[key_part]
          else:
              return None
      return current_level
\<close>
  The items of a dictionary are an association list with distinct keys (what
  \<^verbatim>\<open>json.load\<close> builds), so \<open>map_of\<close> is the lookup.\<close>

fun get_nested_value :: "json \<Rightarrow> string list \<Rightarrow> json" where
  "get_nested_value current_level [] = current_level"
| "get_nested_value current_level (key_part # path_list) =
     (case (if is_dict current_level then map_of (dict_items current_level) key_part else None) of
        Some child \<Rightarrow> get_nested_value child path_list
      | None \<Rightarrow> JNull)"

text \<open>The leaf test of lines 151-152 and 186:
  \<^verbatim>\<open>isinstance(d, dict) and all(k in d for k in ['FW', 'CW'])\<close>.\<close>

definition has_weight_keys :: "json \<Rightarrow> bool" where
  "has_weight_keys d = (is_dict d \<and> list_all (\<lambda>k. has_key k d) [''FW'', ''CW''])"

text \<open>\<^verbatim>\<open>
  active_selection_path = [s for s in st.session_state.selections if s]
  selected_flange_data = None
  if active_selection_path:
      data_candidate = get_nested_value(flange_database, active_selection_path)
      if isinstance(data_candidate, dict) and all(k in data_candidate for k in ['FW', 'CW']):
          selected_flange_data = data_candidate
\<close>\<close>

definition active_selection_path :: "string list \<Rightarrow> string list" where
  "active_selection_path sels = filter (\<lambda>s. s \<noteq> []) sels"

definition selected_flange_data :: "json \<Rightarrow> string list \<Rightarrow> json" where
  "selected_flange_data flange_database sels =
     (if active_selection_path sels \<noteq> []
      then (let data_candidate = get_nested_value flange_database (active_selection_path sels)
            in if has_weight_keys data_candidate then data_candidate else JNull)
      else JNull)"

text \<open>The data source of the dropdown at level \<open>i\<close> (lines 142-149): the walk along the
  selections of the levels before \<open>i\<close>, empty selections included, which ends in the
  empty dictionary at the first key that is missing. The loop stops rendering
  dropdowns at the first level whose data source passes the leaf test (lines 151-153).\<close>

fun walk_selections :: "json \<Rightarrow> string list \<Rightarrow> json" where
  "walk_selections source [] = source"
| "walk_selections source (key_in_path # rest) =
     (case (if is_dict source then map_of (dict_items source) key_in_path else None) of
        Some child \<Rightarrow> walk_selections child rest
      | None \<Rightarrow> JDict [])"

definition data_source_for_current_dropdown :: "json \<Rightarrow> string list \<Rightarrow> nat \<Rightarrow> json" where
  "data_source_for_current_dropdown flange_database sels i =
     walk_selections flange_database (take i sels)"

definition dropdown_loop_breaks :: "json \<Rightarrow> string list \<Rightarrow> nat \<Rightarrow> bool" where
  "dropdown_loop_breaks flange_database sels i =
     has_weight_keys (data_source_for_current_dropdown flange_database sels i)"

text \<open>The leaf test as the specification words it: a mapping that holds both \<open>FW\<close> and
  \<open>CW\<close> with numeric values.\<close>

definition numeric_at :: "string \<Rightarrow> json \<Rightarrow> bool" where
  "numeric_at k d =
     (case map_of (dict_items d) k of None \<Rightarrow> False | Some v \<Rightarrow> is_int_or_float v)"

definition spec_leaf :: "json \<Rightarrow> bool" where
  "spec_leaf d = (is_dict d \<and> numeric_at ''FW'' d \<and> numeric_at ''CW'' d)"

subsection \<open>Compound labels and price keys (lines 70-71, 189-208)\<close>

text \<open>\<^verbatim>\<open>re.split(r'\s*\+\s*', s)\<close>: scanning from the left, a match starts at the first
  position from which a run of whitespace is followed by \<open>+\<close>; it takes the whitespace
  after the \<open>+\<close> as well. The text between the matches is the list of parts.\<close>

function re_split_plus :: "string \<Rightarrow> string list" where
  "re_split_plus [] = [[]]"
| "re_split_plus (c # cs) =
     (case dropWhile is_space (c # cs) of
        [] \<Rightarrow> (case re_split_plus cs of [] \<Rightarrow> [[c]] | p # ps \<Rightarrow> (c # p) # ps)
      | d # rest \<Rightarrow>
          if d = CHR ''+'' then [] # re_split_plus (dropWhile is_space rest)
          else (case re_split_plus cs of [] \<Rightarrow> [[c]] | p # ps \<Rightarrow> (c # p) # ps))"
  by pat_completeness auto
termination
proof (relation "measure length", goal_cases)
  case 1
  show ?case by simp
next
  case (2 c cs)
  show ?case by simp
next
  case (3 c cs d rest)
  have "length (dropWhile is_space rest) \<le> length rest"
    by (rule length_dropWhile_le)
  moreover have "length (d # rest) \<le> length (c # cs)"
    using 3(1) length_dropWhile_le [of is_space "c # cs"] by simp
  ultimately show ?case by simp
next
  case (4 c cs d rest)
  show ?case by simp
qed

text \<open>\<^verbatim>\<open>
  parts = re.split(r'\s*\+\s*', final_key_part)
  if parts:
      primary_flange_description_for_display = parts[0].strip()
      if len(parts) > 1:
          identified_extra_flanges = [part.strip() for part in parts[1:] if part.strip()]
\<close>\<close>

definition primary_flange_description_for_display :: "string \<Rightarrow> string" where
  "primary_flange_description_for_display final_key_part =
     (case re_split_plus final_key_part of [] \<Rightarrow> [] | p # _ \<Rightarrow> py_strip p)"

definition identified_extra_flanges :: "string \<Rightarrow> string list" where
  "identified_extra_flanges final_key_part =
     (case re_split_plus final_key_part of
        [] \<Rightarrow> []
      | _ # rest \<Rightarrow> map py_strip (filter (\<lambda>part. py_strip part \<noteq> []) rest))"

text \<open>\<^verbatim>\<open>re.sub(r'\W+', '_', str(description_str))\<close>: every maximal run of characters
  that are not letters, digits or underscore becomes one underscore. The price key
  of an extra flange is \<^verbatim>\<open>f"price_extra_{create_safe_key(desc)}"\<close>.\<close>

definition is_word_char :: "char \<Rightarrow> bool" where
  "is_word_char c =
     (let n = (of_char c :: nat)
      in (48 \<le> n \<and> n \<le> 57) \<or> (65 \<le> n \<and> n \<le> 90) \<or> (97 \<le> n \<and> n \<le> 122) \<or> n = 95)"

function create_safe_key :: "string \<Rightarrow> string" where
  "create_safe_key [] = []"
| "create_safe_key (c # cs) =
     (if is_word_char c then c # create_safe_key cs
      else CHR ''_'' # create_safe_key (dropWhile (\<lambda>d. \<not> is_word_char d) cs))"
  by pat_completeness auto
termination
  by (relation "measure length") (auto simp: length_dropWhile_le less_Suc_eq_le)

definition price_key :: "string \<Rightarrow> string" where
  "price_key desc = ''price_extra_'' @ create_safe_key desc"

subsection \<open>Cost calculation (lines 252-262, 292-346)\<close>

record cost_inputs =
  calc_cost_steel_per_kg :: real
  calc_scrap_cost_per_kg :: real
  calc_machining_labour :: real
  calc_forging_labour :: real
  calc_transportation_cost :: real
  calc_profit_margin :: real
  calc_num_pieces :: int

record cost_breakdown =
  steel_cost_per_piece :: real
  machining_cost_per_piece :: real
  forging_cost_per_piece :: real
  transportation_weight_basis_kg :: real
  transportation_basis_label :: string
  transportation_cost_per_piece :: real
  scrap_calculated :: bool
  scrap_value_per_piece :: real
  total_value_from_extra_flanges :: real
  total_cost_per_piece_before_profit :: real
  profit_amount_per_piece :: real
  cost_with_profit_per_piece :: real
  gst_amount_per_piece :: real
  final_selling_price_per_piece :: real
  total_order_value :: real

text \<open>The FT value that the calculation uses (lines 252-262): the value from the data,
  or the manual input when the data holds no number and the checkbox is ticked.\<close>

definition ft_flange_final :: "json \<Rightarrow> bool \<Rightarrow> real \<Rightarrow> json" where
  "ft_flange_final ft_flange_from_data ft_manual_checkbox ft_manual_input =
     (if ft_flange_from_data = JNull \<or> \<not> is_int_or_float ft_flange_from_data
      then (if ft_manual_checkbox then JFloat ft_manual_input else ft_flange_from_data)
      else ft_flange_from_data)"

text \<open>\<^verbatim>\<open>ft_flange_final is not None and isinstance(ft_flange_final, (int, float))\<close>.\<close>

definition ft_usable :: "json \<Rightarrow> bool" where
  "ft_usable ft = (ft \<noteq> JNull \<and> is_int_or_float ft)"

text \<open>Lines 319-325: the prices of the identified extra flanges, looked up with
  \<^verbatim>\<open>.get(desc, 0.0)\<close> and added up, when both the price dictionary and the list of
  extras are non-empty.\<close>

definition extra_flange_total :: "(string \<times> real) list \<Rightarrow> string list \<Rightarrow> real" where
  "extra_flange_total extra_flange_prices extras =
     (if extra_flange_prices \<noteq> [] \<and> extras \<noteq> []
      then foldl (\<lambda>total desc.
                    total + (case map_of extra_flange_prices desc of None \<Rightarrow> 0 | Some price \<Rightarrow> price))
             0 extras
      else 0)"

text \<open>Lines 292-346, the cost chain of the \<open>Calculate Costs\<close> handler. It is reached with
  numeric \<open>CW\<close> and \<open>FW\<close> only (line 248 stops on \<open>None\<close>, and line 275 formats both with
  \<^verbatim>\<open>:.3f\<close>), so \<open>cw_flange\<close> and \<open>fw_flange\<close> are their values.\<close>

definition calculate_costs ::
    "real \<Rightarrow> real \<Rightarrow> json \<Rightarrow> cost_inputs \<Rightarrow> (string \<times> real) list \<Rightarrow> string list
     \<Rightarrow> cost_breakdown" where
  "calculate_costs cw_flange fw_flange ft_final inp extra_flange_prices extras =
     (let steel_cost = cw_flange * calc_cost_steel_per_kg inp;
          machining_cost = calc_machining_labour inp * cw_flange;
          forging_cost = calc_forging_labour inp * cw_flange;
          basis = (if ft_usable ft_final then num_value ft_final else cw_flange);
          label = (if ft_usable ft_final then ''(based on FT)''
                   else ''(based on CW as FT not available/provided)'');
          transportation_cost = calc_transportation_cost inp * basis;
          scrap_loss_factor = 0.90;
          scrap_generated_kg_per_piece_gross =
            (if fw_flange < num_value ft_final then 0 else fw_flange - num_value ft_final);
          recoverable_scrap_kg_per_piece = scrap_generated_kg_per_piece_gross * scrap_loss_factor;
          scrap_value =
            (if ft_usable ft_final then recoverable_scrap_kg_per_piece * calc_scrap_cost_per_kg inp
             else 0);
          extras_total = extra_flange_total extra_flange_prices extras;
          total_before_profit =
            steel_cost + machining_cost + forging_cost + transportation_cost
              - scrap_value - extras_total;
          profit_amount = total_before_profit * (calc_profit_margin inp / 100);
          cost_with_profit = total_before_profit + profit_amount;
          gst_amount = cost_with_profit * GST_RATE;
          final_selling_price = cost_with_profit + gst_amount
      in \<lparr>steel_cost_per_piece = steel_cost,
          machining_cost_per_piece = machining_cost,
          forging_cost_per_piece = forging_cost,
          transportation_weight_basis_kg = basis,
          transportation_basis_label = label,
          transportation_cost_per_piece = transportation_cost,
          scrap_calculated = ft_usable ft_final,
          scrap_value_per_piece = scrap_value,
          total_value_from_extra_flanges = extras_total,
          total_cost_per_piece_before_profit = total_before_profit,
          profit_amount_per_piece = profit_amount,
          cost_with_profit_per_piece = cost_with_profit,
          gst_amount_per_piece = gst_amount,
          final_selling_price_per_piece = final_selling_price,
          total_order_value = final_selling_price * of_int (calc_num_pieces inp)\<rparr>)"

text \<open>The format \<^verbatim>\<open>:.2f\<close> of the result lines shows the two-decimal number nearest to the
  value. A value that lies strictly within half a cent of \<open>c / 100\<close> is shown as
  \<open>c / 100\<close> under every treatment of ties; what the format does on a tie depends on
  the binary representation of the value and is not modelled.\<close>

definition shown_as_cents :: "real \<Rightarrow> int \<Rightarrow> bool" where
  "shown_as_cents x c = (\<bar>x * 100 - of_int c\<bar> < 1 / 2)"

section \<open>Properties\<close>

subsection \<open>Selection change\<close>

lemma fold_clear_length:
  "length (fold (\<lambda>k s. s[k := c]) ks s) = length s"
  by (induction ks arbitrary: s) simp_all

lemma fold_clear_nth:
  "j < length s \<Longrightarrow>
   fold (\<lambda>k s. s[k := c]) ks s ! j = (if j \<in> set ks then c else s ! j)"
proof (induction ks arbitrary: s)
  case Nil
  then show ?case by simp
next
  case (Cons k ks)
  have "j < length (s[k := c])" using Cons.prems by simp
  from Cons.IH [OF this] show ?case
    using Cons.prems by (auto simp: nth_list_update)
qed

lemma clear_after_length: "length (clear_after i sels) = length sels"
  by (simp add: clear_after_def fold_clear_length)

lemma clear_after_nth:
  "j < length sels \<Longrightarrow> clear_after i sels ! j = (if i < j then '''' else sels ! j)"
  by (auto simp: clear_after_def fold_clear_nth)

text \<open>
  Claim C4. For every depth \<open>i\<close> of the selection list, every new label value \<open>v\<close> held
  by the changed widget and every prior state, the selection-change callback returns
  normally; afterwards the list of selections has the same length, the selection at
  depth \<open>i\<close> is \<open>v\<close>, every selection at a depth greater than \<open>i\<close> is the empty string
  whatever it was before, and the selections at smaller depths are unchanged.
\<close>

theorem selection_change_clears_deeper:
  assumes "i < length (selections st)"
      and "map_of (widget_values st) key = Some v"
  shows "\<exists>st'. selection_on_change_callback i key st = Inr st'
           \<and> length (selections st') = length (selections st)
           \<and> selections st' ! i = v
           \<and> (\<forall>k. i < k \<and> k < length (selections st) \<longrightarrow> selections st' ! k = '''')
           \<and> (\<forall>k. k < i \<longrightarrow> selections st' ! k = selections st ! k)
           \<and> widget_values st' = widget_values st"
  using assms
  by (simp add: selection_on_change_callback_def clear_after_length clear_after_nth)

theorem selection_change_clears_deeper_witness:
  "(1::nat) < length (selections
      \<lparr>selections = [''WN'', ''2_inch'', ''150'', ''RF'', '''', '''', ''''],
       widget_values = [(''selectbox_level_1'', ''4_inch'')]\<rparr>)
   \<and> selection_on_change_callback 1 ''selectbox_level_1''
      \<lparr>selections = [''WN'', ''2_inch'', ''150'', ''RF'', '''', '''', ''''],
       widget_values = [(''selectbox_level_1'', ''4_inch'')]\<rparr>
     = Inr \<lparr>selections = [''WN'', ''4_inch'', '''', '''', '''', '''', ''''],
          widget_values = [(''selectbox_level_1'', ''4_inch'')]\<rparr>"
  using selection_change_clears_deeper
    [of 1 "\<lparr>selections = [''WN'', ''2_inch'', ''150'', ''RF'', '''', '''', ''''],
       widget_values = [(''selectbox_level_1'', ''4_inch'')]\<rparr>"
       "''selectbox_level_1''" "''4_inch''"]
  by (simp add: selection_on_change_callback_def clear_after_def upt_rec)

subsection \<open>Splitting and parsing\<close>

lemma py_split_no_sep: "sep \<notin> set s \<Longrightarrow> py_split sep s = [s]"
  by (induction s) auto

lemma py_split_one_sep:
  "sep \<notin> set w \<Longrightarrow> sep \<notin> set h \<Longrightarrow> py_split sep (w @ sep # h) = [w, h]"
  by (induction w) (auto simp: py_split_no_sep)

lemma py_split_not_Nil: "py_split sep s \<noteq> []"
  by (induction s) (auto split: list.splits)

lemma pf_div_Inl: "pf_div a b = Inl e \<longleftrightarrow> e = ZeroDivisionError \<and> b = Finite 0"
  by (cases "(a, b)" rule: pf_div.cases) auto

lemma call_float_Inl: "call_float float s = Inl e \<longleftrightarrow> e = ValueError \<and> float s = None"
  by (auto simp: call_float_def split: option.splits)

lemmas float_decimal_eval =
  float_decimal_def unsigned_decimal_def py_strip_def py_lstrip_def py_rstrip_def
  is_space_def is_digit_def
  digits_value_def

subsection \<open>Billet mass\<close>

lemma billet_value:
  assumes "py_split CHR ''x'' (py_lower s) = [w, h]"
      and "float w = Some (Finite W)" and "float h = Some (Finite H)"
  shows "calculate_billet_weight_from_section float s
         = Inr (Some (Finite ((W * H * 482.0) / 10000)))"
proof -
  have "CHR ''x'' \<in> set (py_lower s)"
    using assms(1) py_split_no_sep [of "CHR ''x''" "py_lower s"] by auto
  moreover have "s \<noteq> []" using assms(1) by (auto simp: py_lower_def)
  ultimately show ?thesis
    using assms
    by (simp add: calculate_billet_weight_from_section_def billet_try_body_def call_float_def
        REFERENCE_BILLET_WIDTH_MM_def REFERENCE_BILLET_HEIGHT_MM_def REFERENCE_BILLET_MASS_KG_def)
qed

lemma billet_none:
  "s = [] \<or> CHR ''x'' \<notin> set (py_lower s) \<or> length (py_split CHR ''x'' (py_lower s)) \<noteq> 2
     \<or> (py_split CHR ''x'' (py_lower s) = [w, h] \<and> (float w = None \<or> float h = None))
   \<Longrightarrow> calculate_billet_weight_from_section float s = Inr None"
  by (auto simp: calculate_billet_weight_from_section_def billet_try_body_def call_float_def
        caught_def split: list.splits option.splits sum.splits)

text \<open>The estimator never raises: the only division is by the non-zero reference area.\<close>

lemma billet_never_raises:
  "\<exists>r. calculate_billet_weight_from_section float s = Inr r"
  by (auto simp: calculate_billet_weight_from_section_def billet_try_body_def call_float_def
        caught_def REFERENCE_BILLET_WIDTH_MM_def REFERENCE_BILLET_HEIGHT_MM_def
        split: list.splits option.splits sum.splits)

text \<open>
  Claim C5. For every section string whose lower-cased form is \<open>w\<close>, the separator \<open>x\<close>
  and \<open>h\<close>, where \<open>w\<close> and \<open>h\<close> hold no further \<open>x\<close> and parse as positive numbers \<open>W\<close> and
  \<open>H\<close>, the billet-mass estimator returns exactly \<open>(W * H * 482.0) / 10000\<close>. It returns
  \<open>None\<close> for the empty string, for a string without the separator, for a string that
  does not split into exactly two parts, and when one of the two parts is not a valid
  number.
\<close>

theorem billet_mass_of_section:
  "(py_lower s = w @ ''x'' @ h \<and> CHR ''x'' \<notin> set w \<and> CHR ''x'' \<notin> set h
      \<and> float w = Some (Finite W) \<and> float h = Some (Finite H) \<and> 0 < W \<and> 0 < H
     \<longrightarrow> calculate_billet_weight_from_section float s
           = Inr (Some (Finite ((W * H * 482.0) / 10000))))
   \<and> calculate_billet_weight_from_section float [] = Inr None
   \<and> (CHR ''x'' \<notin> set (py_lower s)
     \<longrightarrow> calculate_billet_weight_from_section float s = Inr None)
   \<and> (length (py_split CHR ''x'' (py_lower s)) \<noteq> 2
     \<longrightarrow> calculate_billet_weight_from_section float s = Inr None)
   \<and> (py_lower s = w @ ''x'' @ h \<and> CHR ''x'' \<notin> set w \<and> CHR ''x'' \<notin> set h
      \<and> (float w = None \<or> float h = None)
     \<longrightarrow> calculate_billet_weight_from_section float s = Inr None)"
proof (intro conjI impI)
  assume a: "py_lower s = w @ ''x'' @ h \<and> CHR ''x'' \<notin> set w \<and> CHR ''x'' \<notin> set h
      \<and> float w = Some (Finite W) \<and> float h = Some (Finite H) \<and> 0 < W \<and> 0 < H"
  then have "py_split CHR ''x'' (py_lower s) = [w, h]"
    by (simp add: py_split_one_sep)
  with a show "calculate_billet_weight_from_section float s
           = Inr (Some (Finite ((W * H * 482.0) / 10000)))"
    by (simp add: billet_value)
next
  show "calculate_billet_weight_from_section float [] = Inr None"
    by (simp add: billet_none)
next
  assume "CHR ''x'' \<notin> set (py_lower s)"
  then show "calculate_billet_weight_from_section float s = Inr None"
    by (simp add: billet_none)
next
  assume "length (py_split CHR ''x'' (py_lower s)) \<noteq> 2"
  then show "calculate_billet_weight_from_section float s = Inr None"
    by (simp add: billet_none)
next
  assume a: "py_lower s = w @ ''x'' @ h \<and> CHR ''x'' \<notin> set w \<and> CHR ''x'' \<notin> set h
      \<and> (float w = None \<or> float h = None)"
  then have "py_split CHR ''x'' (py_lower s) = [w, h]"
    by (simp add: py_split_one_sep)
  with a show "calculate_billet_weight_from_section float s = Inr None"
    using billet_none [of s w h float] by blast
qed

theorem billet_mass_of_section_witness:
  "py_lower ''150X100'' = ''150'' @ ''x'' @ ''100''
   \<and> float_decimal ''150'' = Some (Finite 150) \<and> float_decimal ''100'' = Some (Finite 100)
   \<and> calculate_billet_weight_from_section float_decimal ''150X100'' = Inr (Some (Finite 723))
   \<and> CHR ''x'' \<notin> set (py_lower ''N/A'')
   \<and> calculate_billet_weight_from_section float_decimal ''N/A'' = Inr None
   \<and> length (py_split CHR ''x'' (py_lower ''1x2x3'')) \<noteq> 2
   \<and> calculate_billet_weight_from_section float_decimal ''1x2x3'' = Inr None
   \<and> py_lower ''100xwide'' = ''100'' @ ''x'' @ ''wide''
   \<and> float_decimal ''wide'' = None
   \<and> calculate_billet_weight_from_section float_decimal ''100xwide'' = Inr None"
proof -
  have l1: "py_lower ''150X100'' = ''150'' @ ''x'' @ ''100''"
    and l2: "CHR ''x'' \<notin> set (py_lower ''N/A'')"
    and l3: "length (py_split CHR ''x'' (py_lower ''1x2x3'')) \<noteq> 2"
    and l4: "py_lower ''100xwide'' = ''100'' @ ''x'' @ ''wide''"
    by code_simp+
  have f1: "float_decimal ''150'' = Some (Finite 150)"
    and f2: "float_decimal ''100'' = Some (Finite 100)"
    and f3: "float_decimal ''wide'' = None"
    by (simp_all add: float_decimal_eval)
  have r1: "calculate_billet_weight_from_section float_decimal ''150X100''
            = Inr (Some (Finite 723))"
    using billet_mass_of_section [of "''150X100''" "''150''" "''100''" float_decimal 150 100]
      l1 f1 f2 by simp
  have r2: "calculate_billet_weight_from_section float_decimal ''N/A'' = Inr None"
    using billet_mass_of_section [of "''N/A''" "[]" "[]" float_decimal 0 0] l2 by blast
  have r3: "calculate_billet_weight_from_section float_decimal ''1x2x3'' = Inr None"
    using billet_mass_of_section [of "''1x2x3''" "[]" "[]" float_decimal 0 0] l3 by blast
  have r4: "calculate_billet_weight_from_section float_decimal ''100xwide'' = Inr None"
    using billet_mass_of_section [of "''100xwide''" "''100''" "''wide''" float_decimal 0 0]
      l4 f3 by simp
  from l1 l2 l3 l4 f1 f2 f3 r1 r2 r3 r4 show ?thesis by blast
qed

text \<open>
  Claim C10. The billet-mass estimator makes no positivity check: whenever the two
  parts of the lower-cased section string parse as finite numbers \<open>W\<close> and \<open>H\<close>, of any
  sign, it returns \<open>(W * H * 482.0) / 10000\<close>. On \<open>-50x100\<close> it returns the negative
  mass \<open>-241\<close>, and on \<open>0x100\<close> the mass \<open>0\<close>.
\<close>

theorem billet_mass_no_positivity_check:
  "(py_lower s = w @ ''x'' @ h \<and> CHR ''x'' \<notin> set w \<and> CHR ''x'' \<notin> set h
      \<and> float w = Some (Finite W) \<and> float h = Some (Finite H)
     \<longrightarrow> calculate_billet_weight_from_section float s
           = Inr (Some (Finite ((W * H * 482.0) / 10000))))
   \<and> calculate_billet_weight_from_section float_decimal ''-50x100''
       = Inr (Some (Finite (- 241)))
   \<and> calculate_billet_weight_from_section float_decimal ''0x100'' = Inr (Some (Finite 0))"
proof (intro conjI impI)
  assume a: "py_lower s = w @ ''x'' @ h \<and> CHR ''x'' \<notin> set w \<and> CHR ''x'' \<notin> set h
      \<and> float w = Some (Finite W) \<and> float h = Some (Finite H)"
  then have "py_split CHR ''x'' (py_lower s) = [w, h]"
    by (simp add: py_split_one_sep)
  with a show "calculate_billet_weight_from_section float s
           = Inr (Some (Finite ((W * H * 482.0) / 10000)))"
    by (simp add: billet_value)
next
  have "py_split CHR ''x'' (py_lower ''-50x100'') = [''-50'', ''100'']"
    by code_simp
  moreover have "float_decimal ''-50'' = Some (Finite (- 50))"
    and "float_decimal ''100'' = Some (Finite 100)"
    by (simp_all add: float_decimal_eval)
  ultimately show "calculate_billet_weight_from_section float_decimal ''-50x100''
       = Inr (Some (Finite (- 241)))"
    using billet_value [of "''-50x100''" "''-50''" "''100''" float_decimal "- 50" 100]
    by simp
next
  have "py_split CHR ''x'' (py_lower ''0x100'') = [''0'', ''100'']"
    by code_simp
  moreover have "float_decimal ''0'' = Some (Finite 0)"
    and "float_decimal ''100'' = Some (Finite 100)"
    by (simp_all add: float_decimal_eval)
  ultimately show "calculate_billet_weight_from_section float_decimal ''0x100''
       = Inr (Some (Finite 0))"
    using billet_value [of "''0x100''" "''0''" "''100''" float_decimal 0 100]
    by simp
qed

theorem billet_mass_no_positivity_check_witness:
  "py_lower ''100x-2.5'' = ''100'' @ ''x'' @ ''-2.5''
   \<and> float_decimal ''100'' = Some (Finite 100)
   \<and> float_decimal ''-2.5'' = Some (Finite (- 5 / 2))
   \<and> calculate_billet_weight_from_section float_decimal ''100x-2.5''
       = Inr (Some (Finite (- 241 / 20)))"
proof -
  have l: "py_lower ''100x-2.5'' = ''100'' @ ''x'' @ ''-2.5''"
    by code_simp
  have f1: "float_decimal ''100'' = Some (Finite 100)"
    and f2: "float_decimal ''-2.5'' = Some (Finite (- 5 / 2))"
    by (simp_all add: float_decimal_eval)
  have "calculate_billet_weight_from_section float_decimal ''100x-2.5''
       = Inr (Some (Finite (- 241 / 20)))"
    using billet_mass_no_positivity_check
      [of "''100x-2.5''" "''100''" "''-2.5''" float_decimal 100 "- 5 / 2"] l f1 f2
    by simp
  with l f1 f2 show ?thesis by blast
qed

subsection \<open>Cutting waste\<close>

lemma waste_try_body_errors:
  "waste_try_body float s = Inl e \<Longrightarrow> e = ValueError \<or> e = ZeroDivisionError"
  by (auto simp: waste_try_body_def Let_def call_float_Inl pf_div_Inl py_split_not_Nil
        split: list.splits sum.splits)

text \<open>The only exception that leaves \<open>get_cutting_waste_kg\<close> is \<open>ZeroDivisionError\<close>.\<close>

lemma cutting_waste_raises_only_zero_division:
  "get_cutting_waste_kg float s = Inl e \<Longrightarrow> e = ZeroDivisionError"
  by (auto simp: get_cutting_waste_kg_def caught_def split: if_splits sum.splits
       dest: waste_try_body_errors)

text \<open>It is raised by every fraction and every mixed number whose denominator parses
  as zero, whatever \<open>float\<close> is.\<close>

lemma cutting_waste_fraction_zero_denominator:
  assumes "s \<noteq> []"
      and "py_split CHR ''_'' (py_strip (py_replace ''_inch'' '''' s)) = [a, b]"
      and "float a = Some x" and "float b = Some (Finite 0)"
  shows "get_cutting_waste_kg float s = Inl ZeroDivisionError"
  using assms
  by (simp add: get_cutting_waste_kg_def waste_try_body_def call_float_def caught_def)

lemma cutting_waste_mixed_zero_denominator:
  assumes "s \<noteq> []"
      and "py_split CHR ''_'' (py_strip (py_replace ''_inch'' '''' s)) = [w, a, b]"
      and "float w = Some y" and "float a = Some x" and "float b = Some (Finite 0)"
  shows "get_cutting_waste_kg float s = Inl ZeroDivisionError"
  using assms
  by (simp add: get_cutting_waste_kg_def waste_try_body_def call_float_def caught_def)

text \<open>A NaN size (all of its comparisons are false) falls through to the last band.\<close>

lemma cutting_waste_nan:
  "s \<noteq> [] \<Longrightarrow> waste_try_body float s = Inr NaN \<Longrightarrow> get_cutting_waste_kg float s = Inr 1.0"
  by (simp add: get_cutting_waste_kg_def)

text \<open>
  Claim C2 (as stated: the cutting-waste derivation never raises, a fraction whose
  denominator gives no usable division yields the 0.2 kg default, and the input
  \<open>1_0\<close> returns 0.2). The code does otherwise on \<open>1_0\<close>: the token splits into
  \<open>1\<close> and \<open>0\<close>, both parse, the division raises \<open>ZeroDivisionError\<close>, and the
  \<open>except\<close> clause lists only \<open>ValueError\<close>, \<open>IndexError\<close> and \<open>TypeError\<close>, so the
  exception leaves the function.
\<close>

theorem cutting_waste_zero_denominator_raises:
  "get_cutting_waste_kg float_decimal ''1_0'' = Inl ZeroDivisionError"
  by (simp add: get_cutting_waste_kg_def waste_try_body_def call_float_def caught_def
      float_decimal_eval)

text \<open>
  Claim C6 (as stated: the cutting-waste function returns 0.2 kg when the parsed
  value is at most 4 or the token is unparseable, 0.5 kg between 4 and 8, and 1.0 kg
  above 8). The code does otherwise on a token that yields no numeric value because
  its denominator is zero: on \<open>1_0\<close> the \<open>try\<close> block assigns nothing and raises
  \<open>ZeroDivisionError\<close>, which the \<open>except\<close> clause does not list, so the function raises
  instead of returning 0.2; the mixed number \<open>2_1_0_inch\<close> does the same.
\<close>

theorem cutting_waste_unparseable_fraction_raises:
  "waste_try_body float_decimal ''1_0'' = Inl ZeroDivisionError
   \<and> get_cutting_waste_kg float_decimal ''1_0'' \<noteq> Inr 0.2
   \<and> waste_try_body float_decimal ''2_1_0_inch'' = Inl ZeroDivisionError
   \<and> get_cutting_waste_kg float_decimal ''2_1_0_inch'' = Inl ZeroDivisionError"
  by (simp add: get_cutting_waste_kg_def waste_try_body_def call_float_def caught_def
      float_decimal_eval)

text \<open>On every other token the bands hold. For a non-empty token whose \<open>try\<close> block
  assigns the value \<open>x\<close>, finite or an infinity, the function returns 0.2 when
  \<open>x \<le> 4\<close>, 0.5 when \<open>4 < x \<le> 8\<close> and 1.0 when \<open>x > 8\<close>; it returns 0.2 for the empty
  token and for a token with a part on which \<open>float\<close> raises \<open>ValueError\<close>.\<close>

lemma cutting_waste_bands:
  "(s \<noteq> [] \<and> waste_try_body float s = Inr (Finite x)
     \<longrightarrow> get_cutting_waste_kg float s
           = Inr (if x \<le> 4 then 0.2 else if x \<le> 8 then 0.5 else 1.0))
   \<and> (s \<noteq> [] \<and> waste_try_body float s = Inr NegInf
     \<longrightarrow> get_cutting_waste_kg float s = Inr 0.2)
   \<and> (s \<noteq> [] \<and> waste_try_body float s = Inr PosInf
     \<longrightarrow> get_cutting_waste_kg float s = Inr 1.0)
   \<and> (s = [] \<or> waste_try_body float s = Inl ValueError
     \<longrightarrow> get_cutting_waste_kg float s = Inr 0.2)"
  by (auto simp: get_cutting_waste_kg_def caught_def)

lemma cutting_waste_bands_examples:
  "waste_try_body float_decimal ''1_1_2_inch'' = Inr (Finite (3 / 2))
   \<and> get_cutting_waste_kg float_decimal ''1_1_2_inch'' = Inr 0.2
   \<and> waste_try_body float_decimal ''6_inch'' = Inr (Finite 6)
   \<and> get_cutting_waste_kg float_decimal ''6_inch'' = Inr 0.5
   \<and> waste_try_body float_decimal ''24'' = Inr (Finite 24)
   \<and> get_cutting_waste_kg float_decimal ''24'' = Inr 1.0
   \<and> waste_try_body float_decimal ''large'' = Inl ValueError
   \<and> get_cutting_waste_kg float_decimal ''large'' = Inr 0.2"
proof -
  have t1: "waste_try_body float_decimal ''1_1_2_inch'' = Inr (Finite (3 / 2))"
    and t2: "waste_try_body float_decimal ''6_inch'' = Inr (Finite 6)"
    and t3: "waste_try_body float_decimal ''24'' = Inr (Finite 24)"
    and t4: "waste_try_body float_decimal ''large'' = Inl ValueError"
    by (simp_all add: waste_try_body_def call_float_def float_decimal_eval)
  have r1: "get_cutting_waste_kg float_decimal ''1_1_2_inch'' = Inr 0.2"
    using cutting_waste_bands [of "''1_1_2_inch''" float_decimal "3 / 2"] t1 by simp
  have r2: "get_cutting_waste_kg float_decimal ''6_inch'' = Inr 0.5"
    using cutting_waste_bands [of "''6_inch''" float_decimal 6] t2 by simp
  have r3: "get_cutting_waste_kg float_decimal ''24'' = Inr 1.0"
    using cutting_waste_bands [of "''24''" float_decimal 24] t3 by simp
  have r4: "get_cutting_waste_kg float_decimal ''large'' = Inr 0.2"
    using cutting_waste_bands [of "''large''" float_decimal 0] t4 by simp
  from t1 t2 t3 t4 r1 r2 r3 r4 show ?thesis by blast
qed

subsection \<open>Leaf recognition\<close>

lemma has_weight_keys_iff:
  "has_weight_keys d \<longleftrightarrow>
     (\<exists>kvs. d = JDict kvs \<and> ''FW'' \<in> fst ` set kvs \<and> ''CW'' \<in> fst ` set kvs)"
  by (cases d) (auto simp: has_weight_keys_def has_key_def map_of_eq_None_iff)

lemma selected_flange_data_cases:
  "selected_flange_data db sels =
     (if active_selection_path sels \<noteq> []
         \<and> has_weight_keys (get_nested_value db (active_selection_path sels))
      then get_nested_value db (active_selection_path sels) else JNull)"
  by (simp add: selected_flange_data_def Let_def)

lemma has_weight_keys_not_null: "has_weight_keys d \<Longrightarrow> d \<noteq> JNull"
  by (auto simp: has_weight_keys_def)

text \<open>
  Claim C3, as the code has it. A node reached by a non-empty selection path is
  recognised as a costable leaf (\<open>selected_flange_data\<close> is set to it) if and only if
  it is a mapping that contains both the \<open>FW\<close> and the \<open>CW\<close> key, whatever the values
  under them; the dropdown loop stops at a level on the same test. A mapping that
  lacks one of the two keys and a value that is not a mapping are never recognised.
\<close>

theorem leaf_recognised_iff_both_keys:
  "(selected_flange_data db sels \<noteq> JNull \<longleftrightarrow>
      active_selection_path sels \<noteq> []
      \<and> (\<exists>kvs. get_nested_value db (active_selection_path sels) = JDict kvs
            \<and> ''FW'' \<in> fst ` set kvs \<and> ''CW'' \<in> fst ` set kvs))
   \<and> (selected_flange_data db sels \<noteq> JNull \<longrightarrow>
        selected_flange_data db sels = get_nested_value db (active_selection_path sels))
   \<and> (dropdown_loop_breaks db sels i \<longleftrightarrow>
        (\<exists>kvs. data_source_for_current_dropdown db sels i = JDict kvs
            \<and> ''FW'' \<in> fst ` set kvs \<and> ''CW'' \<in> fst ` set kvs))
   \<and> (''FW'' \<notin> fst ` set kvs \<or> ''CW'' \<notin> fst ` set kvs \<longrightarrow> \<not> has_weight_keys (JDict kvs))
   \<and> (\<not> is_dict node \<longrightarrow> \<not> has_weight_keys node)"
proof (intro conjI)
  show "selected_flange_data db sels \<noteq> JNull \<longleftrightarrow>
      active_selection_path sels \<noteq> []
      \<and> (\<exists>kvs. get_nested_value db (active_selection_path sels) = JDict kvs
            \<and> ''FW'' \<in> fst ` set kvs \<and> ''CW'' \<in> fst ` set kvs)"
    using has_weight_keys_not_null [of "get_nested_value db (active_selection_path sels)"]
    by (auto simp: selected_flange_data_cases has_weight_keys_iff)
next
  show "selected_flange_data db sels \<noteq> JNull \<longrightarrow>
        selected_flange_data db sels = get_nested_value db (active_selection_path sels)"
    by (simp add: selected_flange_data_cases)
next
  show "dropdown_loop_breaks db sels i \<longleftrightarrow>
        (\<exists>kvs. data_source_for_current_dropdown db sels i = JDict kvs
            \<and> ''FW'' \<in> fst ` set kvs \<and> ''CW'' \<in> fst ` set kvs)"
    by (simp add: dropdown_loop_breaks_def has_weight_keys_iff)
next
  show "''FW'' \<notin> fst ` set kvs \<or> ''CW'' \<notin> fst ` set kvs \<longrightarrow> \<not> has_weight_keys (JDict kvs)"
    by (auto simp: has_weight_keys_iff)
next
  show "\<not> is_dict node \<longrightarrow> \<not> has_weight_keys node"
    by (simp add: has_weight_keys_def)
qed

theorem leaf_recognised_iff_both_keys_witness:
  "selected_flange_data
      (JDict [(''WN'', JDict [(''2_inch'', JDict [(''FW'', JFloat 5.5), (''CW'', JInt 5)]),
                              (''4_inch'', JDict [(''FW'', JFloat 9)])])])
      [''WN'', ''2_inch'', '''']
    = JDict [(''FW'', JFloat 5.5), (''CW'', JInt 5)]
   \<and> selected_flange_data
      (JDict [(''WN'', JDict [(''2_inch'', JDict [(''FW'', JFloat 5.5), (''CW'', JInt 5)]),
                              (''4_inch'', JDict [(''FW'', JFloat 9)])])])
      [''WN'', ''4_inch'', '''']
    = JNull
   \<and> \<not> has_weight_keys (JDict [(''FW'', JFloat 9)])
   \<and> \<not> has_weight_keys (JList [JStr ''FW'', JStr ''CW''])"
proof -
  let ?db = "JDict [(''WN'', JDict [(''2_inch'', JDict [(''FW'', JFloat 5.5), (''CW'', JInt 5)]),
                              (''4_inch'', JDict [(''FW'', JFloat 9)])])]"
  have p1: "active_selection_path [''WN'', ''2_inch'', ''''] = [''WN'', ''2_inch'']"
    and p2: "active_selection_path [''WN'', ''4_inch'', ''''] = [''WN'', ''4_inch'']"
    by (simp_all add: active_selection_path_def)
  have g1: "get_nested_value ?db [''WN'', ''2_inch'']
            = JDict [(''FW'', JFloat 5.5), (''CW'', JInt 5)]"
    and g2: "get_nested_value ?db [''WN'', ''4_inch''] = JDict [(''FW'', JFloat 9)]"
    by simp_all
  have "selected_flange_data ?db [''WN'', ''2_inch'', ''''] \<noteq> JNull"
    using leaf_recognised_iff_both_keys [of ?db "[''WN'', ''2_inch'', '''']" 0 "[]" JNull]
    by (simp add: p1 g1)
  then have r1: "selected_flange_data ?db [''WN'', ''2_inch'', '''']
                 = JDict [(''FW'', JFloat 5.5), (''CW'', JInt 5)]"
    using leaf_recognised_iff_both_keys [of ?db "[''WN'', ''2_inch'', '''']" 0 "[]" JNull]
    by (simp add: p1 g1)
  have r2: "selected_flange_data ?db [''WN'', ''4_inch'', ''''] = JNull"
    using leaf_recognised_iff_both_keys [of ?db "[''WN'', ''4_inch'', '''']" 0 "[]" JNull]
    by (simp add: p2 g2)
  have r3: "\<not> has_weight_keys (JDict [(''FW'', JFloat 9)])"
    using leaf_recognised_iff_both_keys [of ?db "[]" 0 "[(''FW'', JFloat 9)]" JNull]
    by simp
  have r4: "\<not> has_weight_keys (JList [JStr ''FW'', JStr ''CW''])"
    using leaf_recognised_iff_both_keys
      [of ?db "[]" 0 "[]" "JList [JStr ''FW'', JStr ''CW'']"]
    by simp
  from r1 r2 r3 r4 show ?thesis by blast
qed

text \<open>The claim as stated (both keys with numeric values) fails: a mapping whose
  \<open>FW\<close> and \<open>CW\<close> hold strings is recognised as a leaf.\<close>

theorem leaf_recognised_without_numeric_values:
  "selected_flange_data
      (JDict [(''WN'', JDict [(''FW'', JStr ''n/a''), (''CW'', JStr ''n/a'')])]) [''WN'', '''']
     = JDict [(''FW'', JStr ''n/a''), (''CW'', JStr ''n/a'')]
   \<and> \<not> spec_leaf (JDict [(''FW'', JStr ''n/a''), (''CW'', JStr ''n/a'')])"
  by (simp add: selected_flange_data_def active_selection_path_def has_weight_keys_def
      has_key_def spec_leaf_def numeric_at_def)

subsection \<open>Cost chain\<close>

lemma scrap_as_max:
  "(if fw < t then 0 else fw - t) = max 0 (fw - (t::real))"
  by (simp add: max_def)

lemma cost_chain:
  "(let b = calculate_costs cw fw ft inp prices extras;
        transportBasis = (if ft_usable ft then num_value ft else cw);
        scrapValue = (if ft_usable ft
                      then max 0 (fw - num_value ft) * 0.90 * calc_scrap_cost_per_kg inp else 0);
        extraFlangeCredit = extra_flange_total prices extras
    in steel_cost_per_piece b = cw * calc_cost_steel_per_kg inp
     \<and> machining_cost_per_piece b = calc_machining_labour inp * cw
     \<and> forging_cost_per_piece b = calc_forging_labour inp * cw
     \<and> transportation_cost_per_piece b = calc_transportation_cost inp * transportBasis
     \<and> scrap_value_per_piece b = scrapValue
     \<and> total_value_from_extra_flanges b = extraFlangeCredit
     \<and> total_cost_per_piece_before_profit b
         = steel_cost_per_piece b + machining_cost_per_piece b + forging_cost_per_piece b
           + transportation_cost_per_piece b - scrapValue - extraFlangeCredit
     \<and> profit_amount_per_piece b
         = total_cost_per_piece_before_profit b * (calc_profit_margin inp / 100)
     \<and> cost_with_profit_per_piece b
         = total_cost_per_piece_before_profit b + profit_amount_per_piece b
     \<and> gst_amount_per_piece b = cost_with_profit_per_piece b * 0.19
     \<and> final_selling_price_per_piece b = cost_with_profit_per_piece b + gst_amount_per_piece b
     \<and> total_order_value b = final_selling_price_per_piece b * of_int (calc_num_pieces inp))"
  unfolding calculate_costs_def Let_def cost_breakdown.select_convs GST_RATE_def scrap_as_max
  by (simp only: simp_thms if_True if_False split: if_splits)

lemmas calc_eval =
  calculate_costs_def Let_def ft_usable_def extra_flange_total_def GST_RATE_def

text \<open>The credit for the extra flanges is the sum, over the identified extra flanges, of
  the price entered for each (0 for one without an entry).\<close>

lemma foldl_add_sum_list:
  "foldl (\<lambda>total desc. total + f desc) a ds = a + sum_list (map f ds)"
  for a :: real
  by (induction ds arbitrary: a) simp_all

lemma extra_flange_total_sum:
  "extra_flange_total prices extras
     = sum_list (map (\<lambda>desc. case map_of prices desc of None \<Rightarrow> 0 | Some price \<Rightarrow> price)
                  extras)"
proof (cases "prices = []")
  case True
  then show ?thesis by (simp add: extra_flange_total_def)
next
  case False
  then show ?thesis by (simp add: extra_flange_total_def foldl_add_sum_list)
qed

text \<open>
  Claim C1. For every numeric \<open>CW\<close>, \<open>FW\<close>, every \<open>FT\<close> value and all cost inputs, the
  breakdown computed by the \<open>Calculate Costs\<close> handler follows the formula chain:
  steelCost = CW * steelPricePerKg, machiningCost = machiningLabourPerKg * CW,
  forgingCost = forgingLabourPerKg * CW, transportCost = transportPerKg * transportBasis,
  totalCostBeforeProfit = steelCost + machiningCost + forgingCost + transportCost
  - scrapValue - extraFlangeCredit, profitAmount = totalCostBeforeProfit *
  (profitMarginPercent / 100), costWithProfit = totalCostBeforeProfit + profitAmount,
  tax = costWithProfit * 0.19, finalUnitPrice = costWithProfit + tax and
  totalOrderValue = finalUnitPrice * pieceCount, where transportBasis is FT when usable
  and CW otherwise, scrapValue is 0.90 * max(0, FW - FT) * scrap rate when FT is usable
  and 0 otherwise, and extraFlangeCredit is the sum of the prices entered for the
  identified extra flanges. On CW = 50, FW = 55, FT = 52, steel rate 100, scrap rate
  20, machining 10, forging 15, transport 5, profit 10 percent and 2 pieces it gives
  steelCost 5000, machiningCost 500, forgingCost 750, transportCost 260, scrapValue
  54, totalCostBeforeProfit 6456, costWithProfit 7101.6, tax 1349.304 and the final
  unit price 8450.904, which lies within half a cent of 8450.90, the number that
  the result line shows. With two extra flanges priced 100 and 50 on the same inputs
  the credit is 150 and the total before profit is 6306.
\<close>

theorem calculation_follows_formula_chain:
  "(let b = calculate_costs cw fw ft inp prices extras;
        transportBasis = (if ft_usable ft then num_value ft else cw);
        scrapValue = (if ft_usable ft
                      then max 0 (fw - num_value ft) * 0.90 * calc_scrap_cost_per_kg inp else 0);
        extraFlangeCredit =
          sum_list (map (\<lambda>desc. case map_of prices desc of None \<Rightarrow> 0 | Some price \<Rightarrow> price)
                      extras)
    in steel_cost_per_piece b = cw * calc_cost_steel_per_kg inp
     \<and> machining_cost_per_piece b = calc_machining_labour inp * cw
     \<and> forging_cost_per_piece b = calc_forging_labour inp * cw
     \<and> transportation_cost_per_piece b = calc_transportation_cost inp * transportBasis
     \<and> scrap_value_per_piece b = scrapValue
     \<and> total_value_from_extra_flanges b = extraFlangeCredit
     \<and> total_cost_per_piece_before_profit b
         = steel_cost_per_piece b + machining_cost_per_piece b + forging_cost_per_piece b
           + transportation_cost_per_piece b - scrapValue - extraFlangeCredit
     \<and> profit_amount_per_piece b
         = total_cost_per_piece_before_profit b * (calc_profit_margin inp / 100)
     \<and> cost_with_profit_per_piece b
         = total_cost_per_piece_before_profit b + profit_amount_per_piece b
     \<and> gst_amount_per_piece b = cost_with_profit_per_piece b * 0.19
     \<and> final_selling_price_per_piece b = cost_with_profit_per_piece b + gst_amount_per_piece b
     \<and> total_order_value b = final_selling_price_per_piece b * of_int (calc_num_pieces inp))
   \<and> (let b = calculate_costs 50 55 (JInt 52)
             \<lparr>calc_cost_steel_per_kg = 100, calc_scrap_cost_per_kg = 20,
              calc_machining_labour = 10, calc_forging_labour = 15,
              calc_transportation_cost = 5, calc_profit_margin = 10, calc_num_pieces = 2\<rparr>
             [] []
    in steel_cost_per_piece b = 5000
     \<and> machining_cost_per_piece b = 500
     \<and> forging_cost_per_piece b = 750
     \<and> transportation_cost_per_piece b = 260
     \<and> scrap_value_per_piece b = 54
     \<and> total_cost_per_piece_before_profit b = 6456
     \<and> profit_amount_per_piece b = 645.6
     \<and> cost_with_profit_per_piece b = 7101.6
     \<and> gst_amount_per_piece b = 1349.304
     \<and> final_selling_price_per_piece b = 8450.904
     \<and> shown_as_cents (final_selling_price_per_piece b) 845090
     \<and> total_order_value b = 16901.808)
   \<and> (let b = calculate_costs 50 55 (JInt 52)
             \<lparr>calc_cost_steel_per_kg = 100, calc_scrap_cost_per_kg = 20,
              calc_machining_labour = 10, calc_forging_labour = 15,
              calc_transportation_cost = 5, calc_profit_margin = 10, calc_num_pieces = 2\<rparr>
             [(''TypeB'', 100), (''TypeC'', 50)] [''TypeB'', ''TypeC'']
    in total_value_from_extra_flanges b = 150
     \<and> total_cost_per_piece_before_profit b = 6306
     \<and> profit_amount_per_piece b = 630.6
     \<and> cost_with_profit_per_piece b = 6936.6
     \<and> gst_amount_per_piece b = 1317.954
     \<and> final_selling_price_per_piece b = 8254.554
     \<and> total_order_value b = 16509.108)"
proof (intro conjI)
  show "let b = calculate_costs 50 55 (JInt 52)
             \<lparr>calc_cost_steel_per_kg = 100, calc_scrap_cost_per_kg = 20,
              calc_machining_labour = 10, calc_forging_labour = 15,
              calc_transportation_cost = 5, calc_profit_margin = 10, calc_num_pieces = 2\<rparr>
             [] []
    in steel_cost_per_piece b = 5000
     \<and> machining_cost_per_piece b = 500
     \<and> forging_cost_per_piece b = 750
     \<and> transportation_cost_per_piece b = 260
     \<and> scrap_value_per_piece b = 54
     \<and> total_cost_per_piece_before_profit b = 6456
     \<and> profit_amount_per_piece b = 645.6
     \<and> cost_with_profit_per_piece b = 7101.6
     \<and> gst_amount_per_piece b = 1349.304
     \<and> final_selling_price_per_piece b = 8450.904
     \<and> shown_as_cents (final_selling_price_per_piece b) 845090
     \<and> total_order_value b = 16901.808"
    by (simp add: calc_eval shown_as_cents_def)
next
  show "let b = calculate_costs 50 55 (JInt 52)
             \<lparr>calc_cost_steel_per_kg = 100, calc_scrap_cost_per_kg = 20,
              calc_machining_labour = 10, calc_forging_labour = 15,
              calc_transportation_cost = 5, calc_profit_margin = 10, calc_num_pieces = 2\<rparr>
             [(''TypeB'', 100), (''TypeC'', 50)] [''TypeB'', ''TypeC'']
    in total_value_from_extra_flanges b = 150
     \<and> total_cost_per_piece_before_profit b = 6306
     \<and> profit_amount_per_piece b = 630.6
     \<and> cost_with_profit_per_piece b = 6936.6
     \<and> gst_amount_per_piece b = 1317.954
     \<and> final_selling_price_per_piece b = 8254.554
     \<and> total_order_value b = 16509.108"
    by (simp add: calc_eval)
next
  show "let b = calculate_costs cw fw ft inp prices extras;
        transportBasis = (if ft_usable ft then num_value ft else cw);
        scrapValue = (if ft_usable ft
                      then max 0 (fw - num_value ft) * 0.90 * calc_scrap_cost_per_kg inp else 0);
        extraFlangeCredit =
          sum_list (map (\<lambda>desc. case map_of prices desc of None \<Rightarrow> 0 | Some price \<Rightarrow> price)
                      extras)
    in steel_cost_per_piece b = cw * calc_cost_steel_per_kg inp
     \<and> machining_cost_per_piece b = calc_machining_labour inp * cw
     \<and> forging_cost_per_piece b = calc_forging_labour inp * cw
     \<and> transportation_cost_per_piece b = calc_transportation_cost inp * transportBasis
     \<and> scrap_value_per_piece b = scrapValue
     \<and> total_value_from_extra_flanges b = extraFlangeCredit
     \<and> total_cost_per_piece_before_profit b
         = steel_cost_per_piece b + machining_cost_per_piece b + forging_cost_per_piece b
           + transportation_cost_per_piece b - scrapValue - extraFlangeCredit
     \<and> profit_amount_per_piece b
         = total_cost_per_piece_before_profit b * (calc_profit_margin inp / 100)
     \<and> cost_with_profit_per_piece b
         = total_cost_per_piece_before_profit b + profit_amount_per_piece b
     \<and> gst_amount_per_piece b = cost_with_profit_per_piece b * 0.19
     \<and> final_selling_price_per_piece b = cost_with_profit_per_piece b + gst_amount_per_piece b
     \<and> total_order_value b = final_selling_price_per_piece b * of_int (calc_num_pieces inp)"
    using cost_chain [of cw fw ft inp prices extras]
    unfolding Let_def extra_flange_total_sum .
qed

text \<open>
  Claim C7. The FT value used is the one from the data when that is a number, else
  the manual value when the override is ticked. With such a value the transport cost
  is transportPerKg times FT and the result is labelled as based on FT; with neither,
  the transport cost is transportPerKg times CW and the label says that CW was used.
\<close>

theorem transport_basis_ft_else_cw:
  "(let ft = ft_flange_final ft_from_data manual_checkbox manual_input;
        b = calculate_costs cw fw ft inp prices extras
    in (ft_usable ft_from_data \<longrightarrow>
          transportation_cost_per_piece b = calc_transportation_cost inp * num_value ft_from_data
          \<and> transportation_basis_label b = ''(based on FT)'')
     \<and> (\<not> ft_usable ft_from_data \<and> manual_checkbox \<longrightarrow>
          transportation_cost_per_piece b = calc_transportation_cost inp * manual_input
          \<and> transportation_basis_label b = ''(based on FT)'')
     \<and> (\<not> ft_usable ft_from_data \<and> \<not> manual_checkbox \<longrightarrow>
          transportation_cost_per_piece b = calc_transportation_cost inp * cw
          \<and> transportation_basis_label b = ''(based on CW as FT not available/provided)''))"
  by (auto simp: calculate_costs_def Let_def ft_usable_def ft_flange_final_def)

theorem transport_basis_ft_else_cw_witness:
  "ft_usable (JFloat 52)
   \<and> transportation_cost_per_piece (calculate_costs 50 55 (ft_flange_final (JFloat 52) False 0)
        \<lparr>calc_cost_steel_per_kg = 100, calc_scrap_cost_per_kg = 20,
         calc_machining_labour = 10, calc_forging_labour = 15,
         calc_transportation_cost = 5, calc_profit_margin = 10, calc_num_pieces = 2\<rparr>
        [] []) = 260
   \<and> \<not> ft_usable (JStr ''N/A'')
   \<and> transportation_cost_per_piece (calculate_costs 50 55 (ft_flange_final (JStr ''N/A'') True 48)
        \<lparr>calc_cost_steel_per_kg = 100, calc_scrap_cost_per_kg = 20,
         calc_machining_labour = 10, calc_forging_labour = 15,
         calc_transportation_cost = 5, calc_profit_margin = 10, calc_num_pieces = 2\<rparr>
        [] []) = 240
   \<and> \<not> ft_usable JNull
   \<and> transportation_cost_per_piece (calculate_costs 50 55 (ft_flange_final JNull False 0)
        \<lparr>calc_cost_steel_per_kg = 100, calc_scrap_cost_per_kg = 20,
         calc_machining_labour = 10, calc_forging_labour = 15,
         calc_transportation_cost = 5, calc_profit_margin = 10, calc_num_pieces = 2\<rparr>
        [] []) = 250
   \<and> transportation_basis_label (calculate_costs 50 55 (ft_flange_final JNull False 0)
        \<lparr>calc_cost_steel_per_kg = 100, calc_scrap_cost_per_kg = 20,
         calc_machining_labour = 10, calc_forging_labour = 15,
         calc_transportation_cost = 5, calc_profit_margin = 10, calc_num_pieces = 2\<rparr>
        [] []) = ''(based on CW as FT not available/provided)''"
proof -
  let ?inp = "\<lparr>calc_cost_steel_per_kg = 100, calc_scrap_cost_per_kg = 20,
         calc_machining_labour = 10, calc_forging_labour = 15,
         calc_transportation_cost = 5, calc_profit_margin = 10, calc_num_pieces = 2\<rparr>"
  have u1: "ft_usable (JFloat 52)" and u2: "\<not> ft_usable (JStr ''N/A'')"
    and u3: "\<not> ft_usable JNull"
    by (simp_all add: ft_usable_def)
  have r1: "transportation_cost_per_piece
              (calculate_costs 50 55 (ft_flange_final (JFloat 52) False 0) ?inp [] []) = 260"
    using transport_basis_ft_else_cw [of "JFloat 52" False 0 50 55 ?inp "[]" "[]"] u1
    by (simp add: Let_def)
  have r2: "transportation_cost_per_piece
              (calculate_costs 50 55 (ft_flange_final (JStr ''N/A'') True 48) ?inp [] []) = 240"
    using transport_basis_ft_else_cw [of "JStr ''N/A''" True 48 50 55 ?inp "[]" "[]"] u2
    by (simp add: Let_def)
  have r3: "transportation_cost_per_piece
              (calculate_costs 50 55 (ft_flange_final JNull False 0) ?inp [] []) = 250
            \<and> transportation_basis_label
              (calculate_costs 50 55 (ft_flange_final JNull False 0) ?inp [] [])
              = ''(based on CW as FT not available/provided)''"
    using transport_basis_ft_else_cw [of JNull False 0 50 55 ?inp "[]" "[]"] u3
    by (simp add: Let_def)
  from u1 u2 u3 r1 r2 r3 show ?thesis by blast
qed

text \<open>
  Claim C8. The total cost before profit is the plain difference of costs and credits,
  with no clamping. Whenever scrap value plus extra-flange credit exceed the summed
  costs (with a profit margin of at least 0 and at least one piece, as the input
  widgets enforce) it is negative, and the negative value goes unchanged through
  profit, cost with profit, tax, final unit price and total order value. With CW = 10,
  steel rate 5, no machining, forging or transport cost, no scrap value, an extra
  credit of 100 and 10 percent profit: total -50, profit -5, cost with profit -55,
  tax -10.45, final unit price -65.45.
\<close>

theorem negative_total_propagates:
  "(let b = calculate_costs cw fw ft inp prices extras
    in (steel_cost_per_piece b + machining_cost_per_piece b + forging_cost_per_piece b
          + transportation_cost_per_piece b
          < scrap_value_per_piece b + total_value_from_extra_flanges b
        \<and> 0 \<le> calc_profit_margin inp \<and> 1 \<le> calc_num_pieces inp
       \<longrightarrow> total_cost_per_piece_before_profit b
             = steel_cost_per_piece b + machining_cost_per_piece b + forging_cost_per_piece b
               + transportation_cost_per_piece b
               - scrap_value_per_piece b - total_value_from_extra_flanges b
         \<and> total_cost_per_piece_before_profit b < 0
         \<and> profit_amount_per_piece b
             = total_cost_per_piece_before_profit b * (calc_profit_margin inp / 100)
         \<and> profit_amount_per_piece b \<le> 0
         \<and> cost_with_profit_per_piece b
             = total_cost_per_piece_before_profit b + profit_amount_per_piece b
         \<and> cost_with_profit_per_piece b < 0
         \<and> gst_amount_per_piece b = cost_with_profit_per_piece b * 0.19
         \<and> gst_amount_per_piece b < 0
         \<and> final_selling_price_per_piece b
             = cost_with_profit_per_piece b + gst_amount_per_piece b
         \<and> final_selling_price_per_piece b < 0
         \<and> total_order_value b
             = final_selling_price_per_piece b * of_int (calc_num_pieces inp)
         \<and> total_order_value b < 0))
   \<and> (let b = calculate_costs 10 12 JNull
             \<lparr>calc_cost_steel_per_kg = 5, calc_scrap_cost_per_kg = 0,
              calc_machining_labour = 0, calc_forging_labour = 0,
              calc_transportation_cost = 0, calc_profit_margin = 10, calc_num_pieces = 1\<rparr>
             [(''TypeB'', 100)] [''TypeB'']
    in scrap_value_per_piece b = 0
     \<and> total_value_from_extra_flanges b = 100
     \<and> total_cost_per_piece_before_profit b = - 50
     \<and> profit_amount_per_piece b = - 5
     \<and> cost_with_profit_per_piece b = - 55
     \<and> gst_amount_per_piece b = - 10.45
     \<and> final_selling_price_per_piece b = - 65.45
     \<and> total_order_value b = - 65.45)"
proof (rule conjI)
  define b where "b = calculate_costs cw fw ft inp prices extras"
  have chain:
    "total_cost_per_piece_before_profit b
       = steel_cost_per_piece b + machining_cost_per_piece b + forging_cost_per_piece b
         + transportation_cost_per_piece b
         - scrap_value_per_piece b - total_value_from_extra_flanges b"
    "profit_amount_per_piece b
       = total_cost_per_piece_before_profit b * (calc_profit_margin inp / 100)"
    "cost_with_profit_per_piece b
       = total_cost_per_piece_before_profit b + profit_amount_per_piece b"
    "gst_amount_per_piece b = cost_with_profit_per_piece b * 0.19"
    "final_selling_price_per_piece b = cost_with_profit_per_piece b + gst_amount_per_piece b"
    "total_order_value b = final_selling_price_per_piece b * of_int (calc_num_pieces inp)"
    using cost_chain [of cw fw ft inp prices extras]
    by (simp_all only: Let_def b_def [symmetric])
  have neg:
    "total_cost_per_piece_before_profit b < 0 \<and> profit_amount_per_piece b \<le> 0
     \<and> cost_with_profit_per_piece b < 0 \<and> gst_amount_per_piece b < 0
     \<and> final_selling_price_per_piece b < 0 \<and> total_order_value b < 0"
    if h: "steel_cost_per_piece b + machining_cost_per_piece b + forging_cost_per_piece b
          + transportation_cost_per_piece b
          < scrap_value_per_piece b + total_value_from_extra_flanges b"
      and m: "0 \<le> calc_profit_margin inp" and n: "1 \<le> calc_num_pieces inp"
  proof -
    have t: "total_cost_per_piece_before_profit b < 0"
      using h chain(1) by simp
    have "total_cost_per_piece_before_profit b * (calc_profit_margin inp / 100) \<le> 0"
      using t m by (intro mult_nonpos_nonneg) simp_all
    then have p: "profit_amount_per_piece b \<le> 0"
      by (simp only: chain(2))
    have c: "cost_with_profit_per_piece b < 0"
      using t p chain(3) by simp
    have g: "gst_amount_per_piece b < 0"
      using c chain(4) by (simp add: mult_less_0_iff)
    have f: "final_selling_price_per_piece b < 0"
      using c g chain(5) by simp
    have "0 < (of_int (calc_num_pieces inp) :: real)" using n by simp
    then have "total_order_value b < 0"
      using f chain(6) by (simp add: mult_less_0_iff)
    with t p c g f show ?thesis by simp
  qed
  show "let b = calculate_costs cw fw ft inp prices extras
    in (steel_cost_per_piece b + machining_cost_per_piece b + forging_cost_per_piece b
          + transportation_cost_per_piece b
          < scrap_value_per_piece b + total_value_from_extra_flanges b
        \<and> 0 \<le> calc_profit_margin inp \<and> 1 \<le> calc_num_pieces inp
       \<longrightarrow> total_cost_per_piece_before_profit b
             = steel_cost_per_piece b + machining_cost_per_piece b + forging_cost_per_piece b
               + transportation_cost_per_piece b
               - scrap_value_per_piece b - total_value_from_extra_flanges b
         \<and> total_cost_per_piece_before_profit b < 0
         \<and> profit_amount_per_piece b
             = total_cost_per_piece_before_profit b * (calc_profit_margin inp / 100)
         \<and> profit_amount_per_piece b \<le> 0
         \<and> cost_with_profit_per_piece b
             = total_cost_per_piece_before_profit b + profit_amount_per_piece b
         \<and> cost_with_profit_per_piece b < 0
         \<and> gst_amount_per_piece b = cost_with_profit_per_piece b * 0.19
         \<and> gst_amount_per_piece b < 0
         \<and> final_selling_price_per_piece b
             = cost_with_profit_per_piece b + gst_amount_per_piece b
         \<and> final_selling_price_per_piece b < 0
         \<and> total_order_value b
             = final_selling_price_per_piece b * of_int (calc_num_pieces inp)
         \<and> total_order_value b < 0)"
    unfolding Let_def b_def [symmetric]
    using chain neg by blast
next
  show "let b = calculate_costs 10 12 JNull
             \<lparr>calc_cost_steel_per_kg = 5, calc_scrap_cost_per_kg = 0,
              calc_machining_labour = 0, calc_forging_labour = 0,
              calc_transportation_cost = 0, calc_profit_margin = 10, calc_num_pieces = 1\<rparr>
             [(''TypeB'', 100)] [''TypeB'']
    in scrap_value_per_piece b = 0
     \<and> total_value_from_extra_flanges b = 100
     \<and> total_cost_per_piece_before_profit b = - 50
     \<and> profit_amount_per_piece b = - 5
     \<and> cost_with_profit_per_piece b = - 55
     \<and> gst_amount_per_piece b = - 10.45
     \<and> final_selling_price_per_piece b = - 65.45
     \<and> total_order_value b = - 65.45"
    by (simp add: calc_eval)
qed

theorem negative_total_propagates_witness:
  "(let b = calculate_costs 10 12 (JInt 10)
             \<lparr>calc_cost_steel_per_kg = 5, calc_scrap_cost_per_kg = 50,
              calc_machining_labour = 0, calc_forging_labour = 0,
              calc_transportation_cost = 0, calc_profit_margin = 10, calc_num_pieces = 3\<rparr>
             [] []
    in steel_cost_per_piece b + machining_cost_per_piece b + forging_cost_per_piece b
          + transportation_cost_per_piece b
          < scrap_value_per_piece b + total_value_from_extra_flanges b
     \<and> total_cost_per_piece_before_profit b < 0
     \<and> final_selling_price_per_piece b < 0
     \<and> total_order_value b < 0)"
proof -
  let ?inp = "\<lparr>calc_cost_steel_per_kg = 5, calc_scrap_cost_per_kg = 50,
              calc_machining_labour = 0, calc_forging_labour = 0,
              calc_transportation_cost = 0, calc_profit_margin = 10, calc_num_pieces = 3\<rparr>"
  let ?b = "calculate_costs 10 12 (JInt 10) ?inp [] []"
  have h: "steel_cost_per_piece ?b + machining_cost_per_piece ?b + forging_cost_per_piece ?b
          + transportation_cost_per_piece ?b
          < scrap_value_per_piece ?b + total_value_from_extra_flanges ?b"
    by (simp add: calc_eval)
  have m: "0 \<le> calc_profit_margin ?inp \<and> 1 \<le> calc_num_pieces ?inp" by simp
  have "total_cost_per_piece_before_profit ?b < 0
     \<and> final_selling_price_per_piece ?b < 0
     \<and> total_order_value ?b < 0"
    using negative_total_propagates [of 10 12 "JInt 10" ?inp "[]" "[]"] h m
    unfolding Let_def by blast
  with h show ?thesis unfolding Let_def by blast
qed

subsection \<open>Compound labels and price keys\<close>

lemma hd_py_split: "hd (py_split sep s) = takeWhile (\<lambda>c. c \<noteq> sep) s"
  by (induction s) (auto simp: py_split_not_Nil split: list.splits)

lemma py_split_Cons_other:
  "c \<noteq> sep \<Longrightarrow> py_split sep (c # cs) = (c # hd (py_split sep cs)) # tl (py_split sep cs)"
  using py_split_not_Nil [of sep cs] by (auto split: list.splits)

lemma py_split_append_sep:
  "sep \<notin> set w \<Longrightarrow> py_split sep (w @ sep # r) = w # py_split sep r"
  by (induction w) (auto simp: py_split_not_Nil split: list.splits)

lemma plus_not_space: "\<not> is_space CHR ''+''"
  by (simp add: is_space_def)

lemma py_rstrip_Nil: "py_rstrip [] = []"
  by (simp add: py_rstrip_def)

lemma py_rstrip_Cons:
  "py_rstrip (c # q) =
     (if is_space c \<and> list_all is_space q then [] else c # py_rstrip q)"
  by (auto simp: py_rstrip_def dropWhile_append list_all_iff)

lemma py_rstrip_all_space: "list_all is_space s \<Longrightarrow> py_rstrip s = []"
  by (simp add: py_rstrip_def list_all_iff)

lemma py_rstrip_idem: "py_rstrip (py_rstrip s) = py_rstrip s"
  by (simp add: py_rstrip_def dropWhile_idem)

lemma py_lstrip_all_space: "list_all is_space s \<Longrightarrow> py_lstrip s = []"
  by (simp add: py_lstrip_def list_all_iff)

lemma lstrip_rstrip_commute: "py_lstrip (py_rstrip s) = py_rstrip (py_lstrip s)"
proof (induction s)
  case Nil
  show ?case by (simp add: py_lstrip_def py_rstrip_def)
next
  case (Cons c s)
  show ?case
  proof (cases "is_space c")
    case True
    show ?thesis
    proof (cases "list_all is_space s")
      case all: True
      have "py_lstrip (py_rstrip (c # s)) = []"
        using True all by (simp add: py_rstrip_Cons py_lstrip_def)
      moreover have "py_lstrip (c # s) = []"
        using True all by (simp add: py_lstrip_def list_all_iff)
      ultimately show ?thesis by (simp add: py_rstrip_Nil)
    next
      case False
      have "py_lstrip (py_rstrip (c # s)) = py_lstrip (py_rstrip s)"
        using True False by (simp add: py_rstrip_Cons py_lstrip_def)
      moreover have "py_lstrip (c # s) = py_lstrip s"
        using True by (simp add: py_lstrip_def)
      ultimately show ?thesis using Cons.IH by simp
    qed
  next
    case False
    then show ?thesis by (simp add: py_rstrip_Cons py_lstrip_def)
  qed
qed

lemma py_strip_rstrip: "py_strip (py_rstrip s) = py_strip s"
  by (simp add: py_strip_def lstrip_rstrip_commute py_rstrip_idem)

lemma py_strip_space_Cons: "is_space c \<Longrightarrow> py_strip (c # s) = py_strip s"
  by (simp add: py_strip_def py_lstrip_def)

text \<open>Leading whitespace of the string does not change the stripped segments.\<close>

lemma split_after_leading_space:
  "map py_strip (py_split CHR ''+'' (dropWhile is_space s)) = map py_strip (py_split CHR ''+'' s)"
proof (induction s)
  case Nil
  then show ?case by simp
next
  case (Cons c s)
  show ?case
  proof (cases "is_space c")
    case True
    then have ne: "c \<noteq> CHR ''+''" using plus_not_space by auto
    define X where "X = py_split CHR ''+'' s"
    have X: "X \<noteq> []" by (simp add: X_def py_split_not_Nil)
    have "py_split CHR ''+'' (c # s) = (c # hd X) # tl X"
      unfolding X_def by (rule py_split_Cons_other [OF ne])
    then have "map py_strip (py_split CHR ''+'' (c # s))
               = py_strip (c # hd X) # map py_strip (tl X)"
      by (simp only: list.map)
    also have "\<dots> = py_strip (hd X) # map py_strip (tl X)"
      by (simp only: py_strip_space_Cons [OF True])
    also have "\<dots> = map py_strip X"
      using X by (cases X) simp_all
    finally have "map py_strip (py_split CHR ''+'' (c # s)) = map py_strip (py_split CHR ''+'' s)"
      by (simp only: X_def)
    moreover have "dropWhile is_space (c # s) = dropWhile is_space s"
      using True by simp
    ultimately show ?thesis using Cons.IH by (simp only:)
  next
    case False
    then show ?thesis by simp
  qed
qed

lemma re_split_plus_not_Nil: "re_split_plus s \<noteq> []"
  by (cases s) (auto split: list.splits)

text \<open>A match of the pattern starts at the head of the string.\<close>

lemma re_split_match:
  assumes "dropWhile is_space (c # cs) = CHR ''+'' # rest"
  shows "re_split_plus (c # cs) = [] # re_split_plus (dropWhile is_space rest)"
    and "\<exists>ws. list_all is_space ws
           \<and> py_split CHR ''+'' (c # cs) = ws # py_split CHR ''+'' rest"
proof -
  show "re_split_plus (c # cs) = [] # re_split_plus (dropWhile is_space rest)"
    by (simp only: re_split_plus.simps assms list.case simp_thms if_True)
  define ws where "ws = takeWhile is_space (c # cs)"
  have eq: "ws @ CHR ''+'' # rest = c # cs"
    using takeWhile_dropWhile_id [of is_space "c # cs"] unfolding assms ws_def .
  have sp: "list_all is_space ws"
    unfolding ws_def list_all_iff by (auto dest: set_takeWhileD)
  then have "CHR ''+'' \<notin> set ws"
    using plus_not_space by (auto simp: list_all_iff)
  then have "py_split CHR ''+'' (ws @ CHR ''+'' # rest) = ws # py_split CHR ''+'' rest"
    by (rule py_split_append_sep)
  then have "py_split CHR ''+'' (c # cs) = ws # py_split CHR ''+'' rest"
    by (simp only: eq)
  with sp show "\<exists>ws. list_all is_space ws
           \<and> py_split CHR ''+'' (c # cs) = ws # py_split CHR ''+'' rest"
    by blast
qed

text \<open>No match starts at the head of the string: the head joins the first part.\<close>

lemma re_split_no_match:
  assumes "\<And>rest. dropWhile is_space (c # cs) \<noteq> CHR ''+'' # rest"
  shows "re_split_plus (c # cs) = (c # hd (re_split_plus cs)) # tl (re_split_plus cs)"
proof -
  define R where "R = re_split_plus cs"
  have R: "R \<noteq> []" by (simp add: R_def re_split_plus_not_Nil)
  have A: "(case R of [] \<Rightarrow> [[c]] | p # ps \<Rightarrow> (c # p) # ps) = (c # hd R) # tl R"
    using R by (cases R) simp_all
  consider (e) "dropWhile is_space (c # cs) = []"
    | (d) d rest where "dropWhile is_space (c # cs) = d # rest" "d \<noteq> CHR ''+''"
    using assms by (cases "dropWhile is_space (c # cs)") auto
  then have "re_split_plus (c # cs) = (case R of [] \<Rightarrow> [[c]] | p # ps \<Rightarrow> (c # p) # ps)"
  proof cases
    case e
    then show ?thesis by (simp only: re_split_plus.simps list.case R_def)
  next
    case d
    then show ?thesis by (simp only: re_split_plus.simps list.case if_False R_def)
  qed
  from this A show ?thesis unfolding R_def by (rule trans)
qed

text \<open>The parts of the regular-expression split against the segments between the \<open>+\<close>
  signs: the first part is the first segment without its trailing whitespace when a
  \<open>+\<close> follows, and the later parts agree with the later segments once stripped.\<close>

lemma re_split_vs_py_split:
  "hd (re_split_plus s)
     = (if CHR ''+'' \<in> set s then py_rstrip (hd (py_split CHR ''+'' s))
        else hd (py_split CHR ''+'' s))
   \<and> map py_strip (tl (re_split_plus s)) = map py_strip (tl (py_split CHR ''+'' s))"
proof (induction s rule: re_split_plus.induct)
  case 1
  show ?case by simp
next
  case (2 c cs)
  show ?case
  proof (cases "\<exists>rest. dropWhile is_space (c # cs) = CHR ''+'' # rest")
    case True
    then obtain rest where m: "dropWhile is_space (c # cs) = CHR ''+'' # rest" by blast
    from re_split_match [OF m] obtain ws where
      r: "re_split_plus (c # cs) = [] # re_split_plus (dropWhile is_space rest)"
      and sp: "list_all is_space ws"
      and p: "py_split CHR ''+'' (c # cs) = ws # py_split CHR ''+'' rest"
      by blast
    have plus: "CHR ''+'' \<in> set (c # cs)"
      using m set_dropWhileD [of "CHR ''+''" is_space "c # cs"] by simp
    define t where "t = dropWhile is_space rest"
    have IH: "hd (re_split_plus t)
        = (if CHR ''+'' \<in> set t then py_rstrip (hd (py_split CHR ''+'' t))
           else hd (py_split CHR ''+'' t))
      \<and> map py_strip (tl (re_split_plus t)) = map py_strip (tl (py_split CHR ''+'' t))"
      unfolding t_def using "2.IH"(2) [OF m refl] .
    have "py_strip (hd (re_split_plus t)) = py_strip (hd (py_split CHR ''+'' t))"
      using IH by (simp add: py_strip_rstrip)
    with IH have "map py_strip (re_split_plus t) = map py_strip (py_split CHR ''+'' t)"
      using re_split_plus_not_Nil [of t] py_split_not_Nil [of "CHR ''+''" t]
      by (cases "re_split_plus t"; cases "py_split CHR ''+'' t") simp_all
    also have "\<dots> = map py_strip (py_split CHR ''+'' rest)"
      unfolding t_def by (rule split_after_leading_space)
    finally have tl: "map py_strip (tl (re_split_plus (c # cs)))
        = map py_strip (tl (py_split CHR ''+'' (c # cs)))"
      by (simp only: r p list.sel t_def)
    have "hd (re_split_plus (c # cs)) = py_rstrip (hd (py_split CHR ''+'' (c # cs)))"
      using sp by (simp only: r p list.sel py_rstrip_all_space)
    with plus tl show ?thesis by (simp only: if_True simp_thms)
  next
    case False
    then have nm: "\<And>rest. dropWhile is_space (c # cs) \<noteq> CHR ''+'' # rest" by blast
    have r: "re_split_plus (c # cs) = (c # hd (re_split_plus cs)) # tl (re_split_plus cs)"
      by (rule re_split_no_match [OF nm])
    have ne: "c \<noteq> CHR ''+''"
    proof
      assume "c = CHR ''+''"
      then have "dropWhile is_space (c # cs) = CHR ''+'' # cs"
        using plus_not_space by simp
      with nm show False by blast
    qed
    have p: "py_split CHR ''+'' (c # cs)
             = (c # hd (py_split CHR ''+'' cs)) # tl (py_split CHR ''+'' cs)"
      by (rule py_split_Cons_other [OF ne])
    have IH: "hd (re_split_plus cs)
        = (if CHR ''+'' \<in> set cs then py_rstrip (hd (py_split CHR ''+'' cs))
           else hd (py_split CHR ''+'' cs))
      \<and> map py_strip (tl (re_split_plus cs)) = map py_strip (tl (py_split CHR ''+'' cs))"
    proof (cases "dropWhile is_space (c # cs)")
      case Nil
      then show ?thesis by (rule "2.IH"(1))
    next
      case (Cons d rest)
      with nm have "d \<noteq> CHR ''+''" by auto
      with Cons show ?thesis by (rule "2.IH"(3))
    qed
    have tl: "map py_strip (tl (re_split_plus (c # cs)))
        = map py_strip (tl (py_split CHR ''+'' (c # cs)))"
      using IH by (simp only: r p list.sel)
    have hd: "hd (re_split_plus (c # cs))
        = (if CHR ''+'' \<in> set (c # cs) then py_rstrip (hd (py_split CHR ''+'' (c # cs)))
           else hd (py_split CHR ''+'' (c # cs)))"
    proof (cases "CHR ''+'' \<in> set cs")
      case True
      define q where "q = hd (py_split CHR ''+'' cs)"
      have q: "q = takeWhile (\<lambda>x. x \<noteq> CHR ''+'') cs"
        by (simp add: q_def hd_py_split)
      have "\<not> (is_space c \<and> list_all is_space q)"
      proof
        assume a: "is_space c \<and> list_all is_space q"
        define P where "P = (\<lambda>x. x \<noteq> CHR ''+'')"
        have dn: "dropWhile P cs \<noteq> []"
          using True by (auto simp: dropWhile_eq_Nil_conv P_def)
        then have "\<not> P (hd (dropWhile P cs))" by (rule hd_dropWhile)
        then have "hd (dropWhile P cs) = CHR ''+''" by (simp add: P_def)
        with dn have "dropWhile P cs = CHR ''+'' # tl (dropWhile P cs)"
          by (cases "dropWhile P cs") simp_all
        then have "takeWhile P cs @ CHR ''+'' # tl (dropWhile P cs) = cs"
          using takeWhile_dropWhile_id [of P cs] by (simp only:)
        then have "cs = takeWhile P cs @ CHR ''+'' # tl (dropWhile P cs)"
          by (rule sym)
        moreover have "takeWhile P cs = q" by (simp add: q P_def)
        ultimately have "cs = q @ CHR ''+'' # tl (dropWhile P cs)"
          by (simp only:)
        then obtain rest where cs: "cs = q @ CHR ''+'' # rest"
          by (rule that)
        have "dropWhile is_space (c # cs) = CHR ''+'' # rest"
          using a plus_not_space by (simp add: cs dropWhile_append list_all_iff)
        with nm show False by blast
      qed
      then have rs: "py_rstrip (c # q) = c # py_rstrip q"
        by (simp only: py_rstrip_Cons if_False)
      have mem: "CHR ''+'' \<in> set (c # cs)" using True by simp
      have "hd (re_split_plus cs) = py_rstrip q"
        using IH True by (simp add: q_def)
      then have "hd (re_split_plus (c # cs)) = c # py_rstrip q"
        by (simp only: r list.sel)
      also have "\<dots> = py_rstrip (c # q)" by (simp only: rs)
      also have "\<dots> = py_rstrip (hd (py_split CHR ''+'' (c # cs)))"
        by (simp only: p list.sel q_def)
      finally show ?thesis by (simp only: mem if_True)
    next
      case False
      then have mem: "CHR ''+'' \<notin> set (c # cs)" using ne by simp
      have "hd (re_split_plus cs) = hd (py_split CHR ''+'' cs)"
        using IH False by simp
      then have "hd (re_split_plus (c # cs)) = c # hd (py_split CHR ''+'' cs)"
        by (simp only: r list.sel)
      also have "\<dots> = hd (py_split CHR ''+'' (c # cs))"
        by (simp only: p list.sel)
      finally show ?thesis by (simp only: mem if_False)
    qed
    from hd tl show ?thesis by blast
  qed
qed

lemma label_primary:
  "primary_flange_description_for_display l = py_strip (hd (py_split CHR ''+'' l))"
proof -
  have "primary_flange_description_for_display l = py_strip (hd (re_split_plus l))"
    using re_split_plus_not_Nil [of l]
    by (cases "re_split_plus l") (simp_all add: primary_flange_description_for_display_def)
  also have "\<dots> = py_strip (hd (py_split CHR ''+'' l))"
    using re_split_vs_py_split [of l] by (simp add: py_strip_rstrip)
  finally show ?thesis .
qed

lemma label_extras:
  "identified_extra_flanges l
     = filter (\<lambda>d. d \<noteq> []) (map py_strip (tl (py_split CHR ''+'' l)))"
proof -
  have "identified_extra_flanges l
          = map py_strip (filter (\<lambda>part. py_strip part \<noteq> []) (tl (re_split_plus l)))"
    using re_split_plus_not_Nil [of l]
    by (cases "re_split_plus l") (simp_all add: identified_extra_flanges_def)
  also have "\<dots> = filter (\<lambda>d. d \<noteq> []) (map py_strip (tl (re_split_plus l)))"
    by (simp add: filter_map comp_def)
  also have "\<dots> = filter (\<lambda>d. d \<noteq> []) (map py_strip (tl (py_split CHR ''+'' l)))"
    using re_split_vs_py_split [of l] by simp
  finally show ?thesis .
qed

lemma underscore_word_char: "is_word_char CHR ''_''"
  by (simp add: is_word_char_def)

lemma create_safe_key_word_chars: "list_all is_word_char (create_safe_key d)"
  by (induction d rule: create_safe_key.induct) (simp_all add: underscore_word_char)

lemma create_safe_key_fixed: "list_all is_word_char s \<Longrightarrow> create_safe_key s = s"
  by (induction s) simp_all

text \<open>
  Claim C9, as the code has it. For every terminal path label, with the label split at
  every \<open>+\<close> and each segment stripped of surrounding whitespace, segment 0 is the
  primary item description and the non-blank segments among 1..n are the
  extra-flange descriptions (\<open>TypeA + TypeB\<close> gives primary \<open>TypeA\<close> and extras
  \<open>TypeB\<close>). The price key of a description is a function of the description alone:
  equal descriptions give equal keys, the key normalisation yields word characters
  only and leaves its own results unchanged.
\<close>

theorem compound_label_parts_and_keys:
  "primary_flange_description_for_display l = py_strip (hd (py_split CHR ''+'' l))
   \<and> identified_extra_flanges l
       = filter (\<lambda>d. d \<noteq> []) (map py_strip (tl (py_split CHR ''+'' l)))
   \<and> primary_flange_description_for_display ''TypeA + TypeB'' = ''TypeA''
   \<and> identified_extra_flanges ''TypeA + TypeB'' = [''TypeB'']
   \<and> (d = d' \<longrightarrow> price_key d = price_key d')
   \<and> list_all is_word_char (create_safe_key d)
   \<and> create_safe_key (create_safe_key d) = create_safe_key d
   \<and> price_key ''TypeB'' = ''price_extra_TypeB''"
proof (intro conjI impI)
  show "primary_flange_description_for_display ''TypeA + TypeB'' = ''TypeA''"
    by code_simp
  show "identified_extra_flanges ''TypeA + TypeB'' = [''TypeB'']"
    by code_simp
  show "price_key ''TypeB'' = ''price_extra_TypeB''"
    by code_simp
  show "create_safe_key (create_safe_key d) = create_safe_key d"
    by (rule create_safe_key_fixed) (rule create_safe_key_word_chars)
qed (simp_all add: label_primary label_extras create_safe_key_word_chars)

theorem compound_label_parts_and_keys_witness:
  "primary_flange_description_for_display ''WN 2in + SO 1in+Blind (RF) '' = ''WN 2in''
   \<and> identified_extra_flanges ''WN 2in + SO 1in+Blind (RF) '' = [''SO 1in'', ''Blind (RF)'']
   \<and> price_key (identified_extra_flanges ''WN 2in + SO 1in+Blind (RF) '' ! 1)
       = price_key ''Blind (RF)''
   \<and> price_key ''Blind (RF)'' = ''price_extra_Blind_RF_''"
proof -
  let ?l = "''WN 2in + SO 1in+Blind (RF) ''"
  have e1: "py_strip (hd (py_split CHR ''+'' ?l)) = ''WN 2in''"
    by code_simp
  have e2: "filter (\<lambda>d. d \<noteq> []) (map py_strip (tl (py_split CHR ''+'' ?l)))
            = [''SO 1in'', ''Blind (RF)'']"
    by code_simp
  have e3: "price_key ''Blind (RF)'' = ''price_extra_Blind_RF_''"
    by code_simp
  note t = compound_label_parts_and_keys
    [of ?l "identified_extra_flanges ?l ! 1" "''Blind (RF)''"]
  have r1: "primary_flange_description_for_display ?l = ''WN 2in''"
    using t e1 by simp
  have r2: "identified_extra_flanges ?l = [''SO 1in'', ''Blind (RF)'']"
    using t e2 by simp
  have "identified_extra_flanges ?l ! 1 = ''Blind (RF)''"
    by (simp add: r2)
  with t have r3: "price_key (identified_extra_flanges ?l ! 1) = price_key ''Blind (RF)''"
    by blast
  from r1 r2 r3 e3 show ?thesis by blast
qed

text \<open>The claim as stated (every segment 1..n is an extra-flange description) fails on
  a label with a blank segment: \<open>TypeA + \<close> has the segments \<open>TypeA\<close> and the empty
  string, and no extra flange is identified.\<close>

theorem blank_segment_is_no_extra_flange:
  "map py_strip (tl (py_split CHR ''+'' ''TypeA + '')) = ['''']
   \<and> identified_extra_flanges ''TypeA + '' = []"
  by code_simp

end
